theory Spec2Isabelle
  imports Complex_Main
begin

section \<open>JavaScript strings\<close>

text \<open>
  A string is a list of code units; the model covers the code units below 256, which is
  what \<^typ>\<open>char\<close> holds. \<open>String.prototype.trim\<close> removes white space and line
  terminators from both ends: in this range TAB, LF, VT, FF, CR, SPACE and NBSP.
\<close>

definition is_ws :: "char \<Rightarrow> bool" where
  "is_ws c = (c \<in> set [CHR 0x09, CHR 0x0A, CHR 0x0B, CHR 0x0C, CHR 0x0D, CHR 0x20, CHR 0xA0])"

definition trimStart :: "string \<Rightarrow> string" where
  "trimStart s = dropWhile is_ws s"

definition trim :: "string \<Rightarrow> string" where
  "trim s = rev (dropWhile is_ws (rev (dropWhile is_ws s)))"

text \<open>\<open>s.split(sep)\<close> for a separator of one code unit: never empty, \<open>''''\<close> gives \<open>['''']\<close>.\<close>

fun split :: "char \<Rightarrow> string \<Rightarrow> string list" where
  "split sep [] = [[]]"
| "split sep (c # cs) =
     (if c = sep then [] # split sep cs
      else (case split sep cs of p # ps \<Rightarrow> (c # p) # ps | [] \<Rightarrow> [[c]]))"

text \<open>\<open>parts.join(sep)\<close>, used to say what the pieces of a split are.\<close>

fun join :: "char \<Rightarrow> string list \<Rightarrow> string" where
  "join sep [] = []"
| "join sep [p] = p"
| "join sep (p # q # ps) = p @ sep # join sep (q # ps)"

text \<open>\<open>.filter(Boolean)\<close> on strings keeps the non-empty ones.\<close>

definition filter_Boolean :: "string list \<Rightarrow> string list" where
  "filter_Boolean xs = filter (\<lambda>x. x \<noteq> []) xs"

section \<open>Numbers\<close>

text \<open>
  A Number is NaN, an infinity (\<open>True\<close> for the negative one) or a finite value. The finite
  values are kept as rationals: \<open>Fin q\<close> stands for the double nearest to \<open>q\<close>; rounding
  inside the finite range is not modelled, the two ends are (\<open>Number_of\<close>).
\<close>

datatype jsnum = NaN | Inf bool | Fin rat

definition truthy_num :: "jsnum \<Rightarrow> bool" where
  "truthy_num x = (case x of NaN \<Rightarrow> False | Inf _ \<Rightarrow> True | Fin q \<Rightarrow> q \<noteq> 0)"

section \<open>Types of the client\<close>

text \<open>
  The interface \<open>Patient\<close> of the types module. TypeScript's types are erased at run
  time and a field holds whatever was assigned to it, so the record leaves open what the
  identifier, the numbers, the texts and the lists are: \<open>Patient\<close> is the interface as
  declared, and \<open>parseJSON\<close> below fills the same fields with parsed JSON values. An
  optional property that is \<open>undefined\<close> is \<open>None\<close>.
\<close>

record ('i, 'n, 's, 'l) Patient_of =
  patient_id :: 'i
  age :: "'n option"
  gender :: "'s option"
  diagnosis :: "'s option"
  diagnosis_date :: "'s option"
  HbA1c :: "'n option"
  eGFR :: "'n option"
  creatinine :: "'n option"
  current_medications :: 'l
  comorbidities :: 'l
  pregnancy_status :: "'s option"
  clinical_notes :: "'s option"

type_synonym Patient = "(string, jsnum, string, string list) Patient_of"

section \<open>PatientForm: handleSubmit\<close>

text \<open>
  The component state read by \<open>handleSubmit\<close>. In JSON mode the text is handed to
  \<open>JSON.parse\<close>, a parameter here (\<open>None\<close> when it throws); \<open>'j\<close> is the type of parsed values.
\<close>

record FormState =
  patient :: Patient
  medications :: string
  comorbidities_text :: string
  jsonMode :: bool
  jsonInput :: string
  jsonError :: "string option"

datatype 'j submission = SubmitParsed 'j | SubmitPatient Patient

definition handleSubmit ::
  "(string \<Rightarrow> 'j option) \<Rightarrow> FormState \<Rightarrow> FormState \<times> 'j submission option" where
  "handleSubmit JSON_parse s =
     (if jsonMode s then
        (case JSON_parse (jsonInput s) of
           Some parsed \<Rightarrow> (s\<lparr>jsonError := None\<rparr>, Some (SubmitParsed parsed))
         | None \<Rightarrow> (s\<lparr>jsonError := Some ''JSON invalid''\<rparr>, None))
      else
        (let patientData = (patient s)
               \<lparr>current_medications :=
                  filter_Boolean (map trim (split CHR '','' (medications s))),
                comorbidities :=
                  filter_Boolean (map trim (split CHR '','' (comorbidities_text s)))\<rparr>
         in (s, Some (SubmitPatient patientData))))"


section \<open>Built-in functions of the language\<close>

text \<open>
  \<open>Number_of q\<close> is the Number value for the real number \<open>q\<close>: what is at most half the
  least positive double rounds to zero, what reaches the midpoint above the greatest
  finite double rounds to an infinity. (An engine may round a literal of more than 20
  significant digits through its first 20; that is not modelled.)
\<close>

definition Number_of :: "rat \<Rightarrow> jsnum" where
  "Number_of q =
     (if \<bar>q\<bar> \<ge> 2 ^ 1024 - 2 ^ 970 then Inf (q < 0)
      else if \<bar>q\<bar> \<le> 1 / 2 ^ 1075 then Fin 0
      else Fin q)"

definition digit_val :: "char \<Rightarrow> nat option" where
  "digit_val c =
     (let n = (of_char c :: nat) in
      if 48 \<le> n \<and> n \<le> 57 then Some (n - 48)
      else if 97 \<le> n \<and> n \<le> 122 then Some (n - 87)
      else if 65 \<le> n \<and> n \<le> 90 then Some (n - 55)
      else None)"

definition is_digit_in :: "nat \<Rightarrow> char \<Rightarrow> bool" where
  "is_digit_in radix c = (case digit_val c of Some d \<Rightarrow> d < radix | None \<Rightarrow> False)"

text \<open>The number a digit string denotes; called on digits of the radix only.\<close>

definition digits_value :: "nat \<Rightarrow> string \<Rightarrow> nat" where
  "digits_value radix ds =
     foldl (\<lambda>a c. a * radix + (case digit_val c of Some d \<Rightarrow> d | None \<Rightarrow> 0)) 0 ds"

text \<open>A leading sign: whether it is a minus, and the rest.\<close>

definition take_sign :: "string \<Rightarrow> bool \<times> string" where
  "take_sign s =
     (case s of
        c # r \<Rightarrow> if c = CHR ''-'' then (True, r) else if c = CHR ''+'' then (False, r) else (False, s)
      | [] \<Rightarrow> (False, s))"

text \<open>
  \<open>parseInt(string)\<close> with no radix: leading white space, a sign, \<open>0x\<close> or \<open>0X\<close> for
  radix 16 and radix 10 otherwise, then the longest run of digits; NaN when there is none.
\<close>

definition parseInt :: "string \<Rightarrow> jsnum" where
  "parseInt s =
     (let (neg, t) = take_sign (trimStart s);
          (radix, u) = (case t of
              z # x # r \<Rightarrow> if z = CHR ''0'' \<and> (x = CHR ''x'' \<or> x = CHR ''X'') then (16, r) else (10, t)
            | _ \<Rightarrow> (10, t));
          ds = takeWhile (is_digit_in radix) u
      in if ds = [] then NaN
         else Number_of ((if neg then - 1 else 1) * of_nat (digits_value radix ds)))"

text \<open>
  \<open>parseFloat(string)\<close>: leading white space, then the longest prefix that is a decimal
  literal: a sign, then \<open>Infinity\<close> or digits with an optional fraction and an optional
  exponent (which counts only when it has a digit); NaN when there is none.
\<close>

definition pow10 :: "int \<Rightarrow> rat" where
  "pow10 e = (if e \<ge> 0 then 10 ^ nat e else 1 / 10 ^ nat (- e))"

definition parse_exponent :: "string \<Rightarrow> int" where
  "parse_exponent s =
     (case s of
        c # r \<Rightarrow>
          if c = CHR ''e'' \<or> c = CHR ''E'' then
            (let (eneg, r') = take_sign r; ed = takeWhile (is_digit_in 10) r'
             in if ed = [] then 0
                else (if eneg then - 1 else 1) * int (digits_value 10 ed))
          else 0
      | [] \<Rightarrow> 0)"

definition parseFloat :: "string \<Rightarrow> jsnum" where
  "parseFloat s =
     (let (neg, t) = take_sign (trimStart s) in
      if take 8 t = ''Infinity'' then Inf neg
      else
        (let ip = takeWhile (is_digit_in 10) t;
             r1 = dropWhile (is_digit_in 10) t;
             (fp, r2) = (case r1 of
                 c # r \<Rightarrow> if c = CHR ''.''
                          then (takeWhile (is_digit_in 10) r, dropWhile (is_digit_in 10) r)
                          else ([], r1)
               | [] \<Rightarrow> ([], r1))
         in if ip = [] \<and> fp = [] then NaN
            else Number_of ((if neg then - 1 else 1)
                   * (of_nat (digits_value 10 ip) + of_nat (digits_value 10 fp) / 10 ^ length fp)
                   * pow10 (parse_exponent r2))))"

text \<open>\<open>x || undefined\<close> on a Number: NaN and zero are falsy.\<close>

definition or_undefined :: "jsnum \<Rightarrow> jsnum option" where
  "or_undefined x = (if truthy_num x then Some x else None)"

text \<open>\<open>toLowerCase\<close> on code units below 256: A to Z, and the capital letters of Latin-1.\<close>

definition lower_char :: "char \<Rightarrow> char" where
  "lower_char c =
     (let n = (of_char c :: nat) in
      if (65 \<le> n \<and> n \<le> 90) \<or> (192 \<le> n \<and> n \<le> 222 \<and> n \<noteq> 215) then char_of (n + 32) else c)"

definition toLowerCase :: "string \<Rightarrow> string" where
  "toLowerCase s = map lower_char s"

text \<open>\<open>findIndex\<close>: \<open>None\<close> is \<open>-1\<close>.\<close>

fun findIndex :: "('a \<Rightarrow> bool) \<Rightarrow> 'a list \<Rightarrow> nat option" where
  "findIndex P [] = None"
| "findIndex P (x # xs) = (if P x then Some 0 else map_option Suc (findIndex P xs))"

text \<open>\<open>xs[i]\<close>: \<open>undefined\<close> out of range.\<close>

definition at_index :: "'a list \<Rightarrow> nat \<Rightarrow> 'a option" where
  "at_index xs i = (if i < length xs then Some (xs ! i) else None)"

text \<open>The decimal digits of a template literal's number.\<close>

fun show_nat :: "nat \<Rightarrow> string" where
  "show_nat n =
     (if n < 10 then [char_of (48 + n)] else show_nat (n div 10) @ [char_of (48 + n mod 10)])"

declare show_nat.simps [simp del]

section \<open>BatchUpload: parsing the file\<close>

datatype error = Error string | TypeError | SyntaxError

text \<open>\<open>parseCSVLine\<close>: the loop over the characters, with its three variables.\<close>

fun parseCSVLine_loop :: "string \<Rightarrow> string list \<Rightarrow> string \<Rightarrow> bool \<Rightarrow> string list" where
  "parseCSVLine_loop [] values current inQuotes = values @ [current]"
| "parseCSVLine_loop (c # cs) values current inQuotes =
     (if c = CHR 0x22 then parseCSVLine_loop cs values current (\<not> inQuotes)
      else if c = CHR '','' \<and> \<not> inQuotes then parseCSVLine_loop cs (values @ [current]) [] inQuotes
      else parseCSVLine_loop cs values (current @ [c]) inQuotes)"

definition parseCSVLine :: "string \<Rightarrow> string list" where
  "parseCSVLine line = parseCSVLine_loop line [] [] False"

text \<open>The \<open>switch\<close> on the header of a column, for a cell that is not blank.\<close>

definition set_column :: "string \<Rightarrow> string \<Rightarrow> Patient \<Rightarrow> Patient" where
  "set_column header v p =
     (if header = ''age'' then p\<lparr>age := or_undefined (parseInt v)\<rparr>
      else if header = ''gender'' then p\<lparr>gender := Some v\<rparr>
      else if header = ''diagnosis'' then p\<lparr>diagnosis := Some v\<rparr>
      else if header = ''diagnosis_date'' then p\<lparr>diagnosis_date := Some v\<rparr>
      else if header = ''hba1c'' then p\<lparr>HbA1c := or_undefined (parseFloat v)\<rparr>
      else if header = ''egfr'' then p\<lparr>eGFR := or_undefined (parseFloat v)\<rparr>
      else if header = ''creatinine'' then p\<lparr>creatinine := or_undefined (parseFloat v)\<rparr>
      else if header = ''current_medications'' \<or> header = ''medications''
        then p\<lparr>current_medications := filter_Boolean (map trim (split CHR '';'' v))\<rparr>
      else if header = ''comorbidities''
        then p\<lparr>comorbidities := filter_Boolean (map trim (split CHR '';'' v))\<rparr>
      else if header = ''pregnancy_status'' then p\<lparr>pregnancy_status := Some v\<rparr>
      else if header = ''clinical_notes'' \<or> header = ''notes'' then p\<lparr>clinical_notes := Some v\<rparr>
      else p)"

text \<open>The body of \<open>headers.forEach((header, idx) => ...)\<close>: a missing or blank cell is left alone.\<close>

definition forEach_body :: "string list \<Rightarrow> nat \<times> string \<Rightarrow> Patient \<Rightarrow> Patient" where
  "forEach_body values ih p =
     (case map_option trim (at_index values (fst ih)) of
        None \<Rightarrow> p
      | Some v \<Rightarrow> if v = [] then p else set_column (snd ih) v p)"

text \<open>
  What \<open>values[idx]?.trim()\<close> gives the callback: the trimmed cell, and the empty text
  stands for a cell that is blank or that the row does not have (both are skipped).
\<close>

definition cell_text :: "string list \<Rightarrow> nat \<Rightarrow> string" where
  "cell_text values idx = (case at_index values idx of Some v \<Rightarrow> trim v | None \<Rightarrow> [])"

text \<open>The patient of data line \<open>i\<close>, or \<open>None\<close> when the line is skipped.\<close>

definition row_patient :: "string list \<Rightarrow> nat \<Rightarrow> nat \<Rightarrow> string \<Rightarrow> Patient option" where
  "row_patient headers patientIdIndex i line =
     (let values = parseCSVLine line in
      if values = [] \<or> list_all (\<lambda>v. trim v = []) values then None
      else
        (let patient0 = \<lparr>patient_id =
                 (case at_index values patientIdIndex of
                    Some v \<Rightarrow> if v \<noteq> [] then v else ''P'' @ show_nat i
                  | None \<Rightarrow> ''P'' @ show_nat i),
               age = None, gender = None, diagnosis = None, diagnosis_date = None,
               HbA1c = None, eGFR = None, creatinine = None,
               current_medications = [], comorbidities = [],
               pregnancy_status = None, clinical_notes = None\<rparr>
         in Some (fold (forEach_body values) (enumerate 0 headers) patient0)))"

text \<open>The loop \<open>for (let i = 1; i < lines.length; i++)\<close>, over the lines from \<open>lines[i]\<close> on.\<close>

fun parseCSV_loop :: "string list \<Rightarrow> nat \<Rightarrow> nat \<Rightarrow> string list \<Rightarrow> Patient list" where
  "parseCSV_loop headers patientIdIndex i [] = []"
| "parseCSV_loop headers patientIdIndex i (line # rest) =
     (case row_patient headers patientIdIndex i line of
        None \<Rightarrow> parseCSV_loop headers patientIdIndex (Suc i) rest
      | Some p \<Rightarrow> p # parseCSV_loop headers patientIdIndex (Suc i) rest)"

definition parseCSV :: "string \<Rightarrow> error + Patient list" where
  "parseCSV content =
     (let lines = split CHR 0x0A (trim content) in
      if length lines < 2
      then Inl (Error ''CSV must have a header row and at least one data row'')
      else
        (let headers = map (\<lambda>h. toLowerCase (trim h)) (split CHR '','' (hd lines)) in
         case findIndex (\<lambda>h. h = ''patient_id'' \<or> h = ''patientid'' \<or> h = ''id'') headers of
           None \<Rightarrow> Inl (Error ''CSV must have a patient_id column'')
         | Some patientIdIndex \<Rightarrow> Inr (parseCSV_loop headers patientIdIndex 1 (tl lines))))"

text \<open>
  A value produced by \<open>JSON.parse\<close>. An object is the list of its properties; reading
  a property takes the first binding of the name.
\<close>

datatype json = JNull | JBool bool | JNum jsnum | JStr string | JArr "json list"
  | JObj "(string \<times> json) list"

type_synonym ParsedPatient = "(json, json, json, json) Patient_of"

definition truthy :: "json \<Rightarrow> bool" where
  "truthy v =
     (case v of JNull \<Rightarrow> False | JBool b \<Rightarrow> b | JNum n \<Rightarrow> truthy_num n | JStr s \<Rightarrow> s \<noteq> []
      | JArr _ \<Rightarrow> True | JObj _ \<Rightarrow> True)"

text \<open>
  \<open>p.name\<close> for a value that is not \<open>null\<close>: a property of an object, \<open>undefined\<close>
  on an object without it and on a number, a string, a boolean or an array (none of the
  names read here is a property of those).
\<close>

definition get_prop :: "json \<Rightarrow> string \<Rightarrow> json option" where
  "get_prop p name = (case p of JObj kvs \<Rightarrow> map_of kvs name | _ \<Rightarrow> None)"

text \<open>\<open>x || d\<close> where \<open>x\<close> may be \<open>undefined\<close>.\<close>

definition or_else :: "json option \<Rightarrow> json \<Rightarrow> json" where
  "or_else x d = (case x of Some v \<Rightarrow> if truthy v then v else d | None \<Rightarrow> d)"

text \<open>The callback of \<open>parsed.map((p, idx) => ...)\<close>; reading a property of \<open>null\<close> throws.\<close>

definition json_patient :: "json \<Rightarrow> nat \<Rightarrow> error + ParsedPatient" where
  "json_patient p idx =
     (case p of
        JNull \<Rightarrow> Inl TypeError
      | _ \<Rightarrow> Inr \<lparr>patient_id = or_else (get_prop p ''patient_id'') (JStr (''P'' @ show_nat (idx + 1))),
               age = get_prop p ''age'',
               gender = get_prop p ''gender'',
               diagnosis = get_prop p ''diagnosis'',
               diagnosis_date = get_prop p ''diagnosis_date'',
               HbA1c = get_prop p ''HbA1c'',
               eGFR = get_prop p ''eGFR'',
               creatinine = get_prop p ''creatinine'',
               current_medications = or_else (get_prop p ''current_medications'') (JArr []),
               comorbidities = or_else (get_prop p ''comorbidities'') (JArr []),
               pregnancy_status = get_prop p ''pregnancy_status'',
               clinical_notes = get_prop p ''clinical_notes''\<rparr>)"

text \<open>\<open>Array.prototype.map\<close> with a callback that may throw: the first throw ends it.\<close>

fun map_entries :: "json list \<Rightarrow> nat \<Rightarrow> error + ParsedPatient list" where
  "map_entries [] idx = Inr []"
| "map_entries (p # ps) idx =
     (case json_patient p idx of
        Inl e \<Rightarrow> Inl e
      | Inr x \<Rightarrow> (case map_entries ps (Suc idx) of Inl e \<Rightarrow> Inl e | Inr xs \<Rightarrow> Inr (x # xs)))"

text \<open>\<open>parseJSON\<close>; \<open>JSON.parse\<close> is a parameter, \<open>None\<close> when it throws a SyntaxError.\<close>

definition parseJSON :: "(string \<Rightarrow> json option) \<Rightarrow> string \<Rightarrow> error + ParsedPatient list" where
  "parseJSON JSON_parse content =
     (case JSON_parse content of
        None \<Rightarrow> Inl SyntaxError
      | Some parsed \<Rightarrow>
          (case parsed of
             JArr entries \<Rightarrow> map_entries entries 0
           | _ \<Rightarrow> Inl (Error ''JSON must be an array of patient objects'')))"

section \<open>The API client and the batch flow\<close>

text \<open>
  What a rejected request throws: an \<open>Error\<close> with its message, or something that is
  not an \<open>Error\<close>.
\<close>

datatype thrown = IsError string | NotError

text \<open>The body posted to \<open>/screening/batch\<close>.\<close>

record 'p BatchRequest =
  trial_id :: string
  patients :: "'p list"
  generate_ai_explanation :: bool

text \<open>
  \<open>batchScreen(trialId, patients, generateAI = false)\<close>: an argument left out is
  \<open>None\<close> and takes the default. \<open>post\<close> is the server behind \<open>api.post\<close>: it answers a
  path and a body with the response data or fails.
\<close>

definition batchScreen ::
  "(string \<Rightarrow> 'p BatchRequest \<Rightarrow> thrown + 'r) \<Rightarrow> string \<Rightarrow> 'p list \<Rightarrow> bool option \<Rightarrow> thrown + 'r" where
  "batchScreen post trialId ps generateAI_arg =
     (let generateAI = (case generateAI_arg of None \<Rightarrow> False | Some b \<Rightarrow> b)
      in post ''/screening/batch''
           \<lparr>trial_id = trialId, patients = ps, generate_ai_explanation = generateAI\<rparr>)"

datatype UploadStatus = idle | preview | processing | complete | error_status

record ('p, 'r) UploadState =
  upload_status :: UploadStatus
  uploaded :: "'p list"
  results :: "'r option"
  error_message :: "string option"

text \<open>\<open>err instanceof Error ? err.message : 'Batch processing failed'\<close>\<close>

definition error_text :: "thrown \<Rightarrow> string" where
  "error_text e = (case e of IsError m \<Rightarrow> m | NotError \<Rightarrow> ''Batch processing failed'')"

text \<open>\<open>handleProcessBatch\<close>, run to its end: the state it leaves.\<close>

definition handleProcessBatch ::
  "(string \<Rightarrow> 'p BatchRequest \<Rightarrow> thrown + 'r) \<Rightarrow> string \<Rightarrow> ('p, 'r) UploadState \<Rightarrow> ('p, 'r) UploadState" where
  "handleProcessBatch post trialId s =
     (if length (uploaded s) = 0 then s
      else
        (case batchScreen post trialId (uploaded s) (Some False) of
           Inr response \<Rightarrow> s\<lparr>upload_status := complete, results := Some response, error_message := None\<rparr>
         | Inl e \<Rightarrow> s\<lparr>upload_status := error_status, error_message := Some (error_text e)\<rparr>))"

section \<open>Types of the screening results\<close>

text \<open>
  Modelled from the spec: the values of a patient record (section 3: a scalar number, a
  scalar text or a list of texts), which the absent engine reads by attribute name.
\<close>

datatype attr = NumberValue rat | TextValue string | ListValue "string list"

text \<open>
  The interfaces \<open>CriterionResult\<close>, \<open>EligibilityResult\<close>, \<open>ScreeningResponse\<close>,
  \<open>BatchScreeningResult\<close> and \<open>BatchScreeningResponse\<close> of the types module. A field
  whose name another record already has carries a prefix. \<open>actual_value\<close> is declared
  \<open>any\<close>; it echoes the patient attribute that was read. \<open>screened_at\<close> is a reading
  of the clock.
\<close>

datatype status = MET | NOT_MET | EXCLUDES | CLEAR | UNKNOWN

datatype decision = ELIGIBLE | INELIGIBLE | UNCERTAIN

record CriterionResult =
  criterion_id :: string
  criterion_text :: string
  status :: status
  actual_value :: "attr option"
  reason :: "string option"

record EligibilityResult =
  decision :: decision
  inclusion_results :: "CriterionResult list"
  exclusion_results :: "CriterionResult list"
  missing_data :: "string list"
  ai_explanation :: "string option"
  recommendation :: "string option"

record ScreeningResponse =
  sr_trial_id :: string
  trial_name :: string
  sr_patient_id :: string
  result :: EligibilityResult
  screened_at :: nat

record BatchScreeningResult =
  b_patient_id :: string
  b_decision :: string
  summary :: string

record BatchScreeningResponse =
  batch_trial_id :: string
  total_patients :: nat
  eligible_count :: nat
  ineligible_count :: nat
  uncertain_count :: nat
  batch_results :: "BatchScreeningResult list"

section \<open>ResultsDashboard\<close>

text \<open>
  What the component renders, as the list of its blocks: the placeholder when there is
  no result, and otherwise the fixed blocks and the three that depend on the result
  (\<open>missing_data.length > 0\<close>, \<open>ai_explanation &&\<close>, \<open>recommendation &&\<close>).
\<close>

datatype block = NoResults | Actions | TrialAndPatient | DecisionBanner decision
  | MissingDataWarning "string list" | AIExplanation string | Recommendation string
  | CriteriaTables | SummaryStats

definition ResultsDashboard :: "ScreeningResponse option \<Rightarrow> block list" where
  "ResultsDashboard r =
     (case r of
        None \<Rightarrow> [NoResults]
      | Some response \<Rightarrow>
          (let e = result response in
           [Actions, TrialAndPatient, DecisionBanner (decision e)]
           @ (if length (missing_data e) > 0 then [MissingDataWarning (missing_data e)] else [])
           @ (case ai_explanation e of
                Some text \<Rightarrow> if text \<noteq> [] then [AIExplanation text] else []
              | None \<Rightarrow> [])
           @ (case recommendation e of
                Some text \<Rightarrow> if text \<noteq> [] then [Recommendation text] else []
              | None \<Rightarrow> [])
           @ [CriteriaTables, SummaryStats]))"

section \<open>The eligibility engine\<close>

text \<open>
  Modelled from the spec: the data the engine reads. The engine (the backend's
  \<open>eligibility_engine\<close>) is not among the sources; sections 3 and 9 of the
  specification give a criterion an identifier, a text, the name of the patient attribute
  it reads, and a kind that carries exactly the bounds it needs; a patient record is a
  sparse mapping from attribute names to values, with the patient's identifier; a trial
  carries its ordered inclusion and exclusion criteria.
\<close>

datatype kind = RANGE "rat option" "rat option" | VALUE string | CONTAINS "string list"
  | EXCLUDES_kind "string list"

text \<open>Modelled from the spec: a criterion definition (section 3), read by the absent engine.\<close>

record CriterionDefinition =
  crit_id :: string
  crit_text :: string
  field :: string
  kind :: kind

text \<open>Modelled from the spec: a patient record (section 3), the input of the absent engine.\<close>

record PatientRecord =
  pr_patient_id :: string
  attributes :: "string \<Rightarrow> attr option"

text \<open>Modelled from the spec: a trial definition (glossary and section 6), the other input of the absent engine.\<close>

record TrialDefinition =
  td_id :: string
  td_name :: string
  inclusion_criteria :: "CriterionDefinition list"
  exclusion_criteria :: "CriterionDefinition list"

text \<open>Modelled from the spec: whether the absent evaluator is applied to an inclusion or to an exclusion criterion (section 4.1).\<close>

datatype usage = Inclusion | Exclusion

text \<open>
  Modelled from the spec: the bound checks of a \<open>RANGE\<close> criterion (section 4.1), which the
  engine's source would hold. Bounds are inclusive: a value equal to a bound is within
  it. For inclusion the checks of the bounds that are set are combined with AND: the
  criterion is satisfied when no bound is violated.
\<close>

definition within_bounds :: "rat option \<Rightarrow> rat option \<Rightarrow> rat \<Rightarrow> bool" where
  "within_bounds lo hi v =
     ((case lo of None \<Rightarrow> True | Some l \<Rightarrow> l \<le> v) \<and> (case hi of None \<Rightarrow> True | Some h \<Rightarrow> v \<le> h))"

text \<open>
  Modelled from the spec: the dangerous band of an exclusion \<open>RANGE\<close> criterion (section
  4.1), for the absent evaluator. A single violated bound triggers the exclusion, and the
  bounds that are set are combined with OR: the band is what lies below \<open>min\<close> or above
  \<open>max\<close>, and a value within \<open>min \<le> v \<le> max\<close> is clear. The band below 45 of section 8
  is what violates a minimum of 45.
\<close>

definition in_exclusion_band :: "rat option \<Rightarrow> rat option \<Rightarrow> rat \<Rightarrow> bool" where
  "in_exclusion_band lo hi v =
     ((case lo of None \<Rightarrow> False | Some l \<Rightarrow> v < l) \<or> (case hi of None \<Rightarrow> False | Some h \<Rightarrow> h < v))"

text \<open>
  Modelled from the spec: matching of entries for \<open>CONTAINS\<close> and \<open>EXCLUDES\<close>, absent with
  the engine: some entry of the patient's list equals, case-insensitively, some entry of the
  criterion's set. A text value is read as the list of that one entry (the scenario of
  section 8 reads \<open>pregnancy_status\<close>, a text, against an \<open>EXCLUDES\<close> criterion); a number
  is not readable as a list.
\<close>

definition matches :: "string list \<Rightarrow> string list \<Rightarrow> bool" where
  "matches entries wanted =
     list_ex (\<lambda>e. list_ex (\<lambda>w. toLowerCase e = toLowerCase w) wanted) entries"

text \<open>Modelled from the spec: the entries the absent evaluator matches for \<open>CONTAINS\<close> and \<open>EXCLUDES\<close> (sections 4.1 and 8).\<close>

definition entries_of :: "attr \<Rightarrow> string list option" where
  "entries_of a =
     (case a of ListValue es \<Rightarrow> Some es | TextValue s \<Rightarrow> Some [s] | NumberValue _ \<Rightarrow> None)"

text \<open>
  Modelled from the spec: which values a kind can read (section 7: a value of another
  type is treated as missing); the engine's own test is absent.
\<close>

definition readable :: "kind \<Rightarrow> attr \<Rightarrow> bool" where
  "readable k a =
     (case k of
        RANGE _ _ \<Rightarrow> (case a of NumberValue _ \<Rightarrow> True | _ \<Rightarrow> False)
      | VALUE _ \<Rightarrow> (case a of TextValue _ \<Rightarrow> True | _ \<Rightarrow> False)
      | CONTAINS _ \<Rightarrow> (case a of NumberValue _ \<Rightarrow> False | _ \<Rightarrow> True)
      | EXCLUDES_kind _ \<Rightarrow> (case a of NumberValue _ \<Rightarrow> False | _ \<Rightarrow> True))"

text \<open>
  Modelled from the spec: the status a criterion gives for the value read (section 4.1),
  in place of the absent evaluator: \<open>UNKNOWN\<close> for an absent value and for one of the
  wrong type, and otherwise by kind.
\<close>

fun status_of :: "usage \<Rightarrow> kind \<Rightarrow> attr option \<Rightarrow> status" where
  "status_of u k None = UNKNOWN"
| "status_of u (RANGE lo hi) (Some (NumberValue v)) =
     (case u of
        Inclusion \<Rightarrow> if within_bounds lo hi v then MET else NOT_MET
      | Exclusion \<Rightarrow> if in_exclusion_band lo hi v then EXCLUDES else CLEAR)"
| "status_of u (RANGE lo hi) (Some a) = UNKNOWN"
| "status_of u (VALUE w) (Some (TextValue s)) =
     (case u of
        Inclusion \<Rightarrow> if toLowerCase s = toLowerCase w then MET else NOT_MET
      | Exclusion \<Rightarrow> if toLowerCase s = toLowerCase w then EXCLUDES else CLEAR)"
| "status_of u (VALUE w) (Some a) = UNKNOWN"
| "status_of u (CONTAINS ws) (Some a) =
     (case entries_of a of
        None \<Rightarrow> UNKNOWN
      | Some es \<Rightarrow> if matches es ws then MET else NOT_MET)"
| "status_of u (EXCLUDES_kind ws) (Some a) =
     (case entries_of a of
        None \<Rightarrow> UNKNOWN
      | Some es \<Rightarrow> if matches es ws then EXCLUDES else CLEAR)"

text \<open>
  Modelled from the spec: \<open>evaluate(criterion, patient)\<close> of section 4.1, the absent
  criterion evaluator. It reads \<open>patient[criterion.field]\<close>, echoes it in \<open>actual_value\<close>
  and never puts a default in its place. The specification does not say what the note
  \<open>reason\<close> holds; it is left out.
\<close>

definition evaluate :: "usage \<Rightarrow> CriterionDefinition \<Rightarrow> PatientRecord \<Rightarrow> CriterionResult" where
  "evaluate u c p =
     \<lparr>criterion_id = crit_id c, criterion_text = crit_text c,
      status = status_of u (kind c) (attributes p (field c)),
      actual_value = attributes p (field c), reason = None\<rparr>"

text \<open>
  Modelled from the spec: the decision policy of section 4.2, the absent aggregator, in
  its strict order: a definitive failure first, then missing data, then eligible.
\<close>

definition decide :: "CriterionResult list \<Rightarrow> CriterionResult list \<Rightarrow> string list \<Rightarrow> decision" where
  "decide inc exc missing =
     (if list_ex (\<lambda>r. status r = NOT_MET) inc \<or> list_ex (\<lambda>r. status r = EXCLUDES) exc
      then INELIGIBLE
      else if missing \<noteq> [] then UNCERTAIN
      else ELIGIBLE)"

text \<open>
  Modelled from the spec: \<open>aggregate(inclusion_results, exclusion_results)\<close> of section 4.2,
  absent with the engine. Each result comes tagged with the field its criterion reads;
  \<open>missing_data\<close> collects the fields of the results with status \<open>UNKNOWN\<close>, each once.
\<close>

definition missing_fields :: "(string \<times> CriterionResult) list \<Rightarrow> string list" where
  "missing_fields tagged = remdups (map fst (filter (\<lambda>fr. status (snd fr) = UNKNOWN) tagged))"

text \<open>Modelled from the spec: the absent aggregator itself (section 4.2).\<close>

definition aggregate ::
  "(string \<times> CriterionResult) list \<Rightarrow> (string \<times> CriterionResult) list \<Rightarrow> EligibilityResult" where
  "aggregate inc exc =
     (let missing = missing_fields (inc @ exc) in
      \<lparr>decision = decide (map snd inc) (map snd exc) missing,
       inclusion_results = map snd inc, exclusion_results = map snd exc,
       missing_data = missing, ai_explanation = None, recommendation = None\<rparr>)"

text \<open>
  Modelled from the spec: the screening of one patient against one trial (the data flow of
  section 2), which the absent engine performs: every criterion is evaluated, in order, and
  the results are aggregated.
\<close>

definition screen_patient :: "TrialDefinition \<Rightarrow> PatientRecord \<Rightarrow> EligibilityResult" where
  "screen_patient t p =
     aggregate (map (\<lambda>c. (field c, evaluate Inclusion c p)) (inclusion_criteria t))
               (map (\<lambda>c. (field c, evaluate Exclusion c p)) (exclusion_criteria t))"

text \<open>
  Modelled from the spec: the explanation step of section 4.4 and the single screening
  request of section 6, absent with the backend. The collaborator is a parameter: it
  answers with a text or fails with a \<open>GenerationError\<close>. It is called only when the
  request asks for an explanation, after the decision is made, and its failure leaves the
  explanation absent.
\<close>

datatype GenerationError = GenerationError string

text \<open>Modelled from the spec: the optional explanation step of the absent request handler (section 4.4).\<close>

definition with_explanation ::
  "(string \<Rightarrow> string \<Rightarrow> EligibilityResult \<Rightarrow> GenerationError + string)
     \<Rightarrow> TrialDefinition \<Rightarrow> PatientRecord \<Rightarrow> bool \<Rightarrow> EligibilityResult" where
  "with_explanation explain t p generate_ai =
     (let d = screen_patient t p in
      if generate_ai then
        (case explain (td_name t) (pr_patient_id p) d of
           Inr text \<Rightarrow> d\<lparr>ai_explanation := Some text\<rparr>
         | Inl e \<Rightarrow> d)
      else d)"

text \<open>
  Modelled from the spec: the state around a screening request (section 6): a clock that
  stamps \<open>screened_at\<close> and the append-only audit sink that receives every result. Neither
  is in the sources.
\<close>

record EngineState =
  clock :: nat
  audit :: "ScreeningResponse list"

text \<open>Modelled from the spec: the absent handler of a single screening request (section 6).\<close>

definition screening_request ::
  "(string \<Rightarrow> string \<Rightarrow> EligibilityResult \<Rightarrow> GenerationError + string)
     \<Rightarrow> EngineState \<Rightarrow> TrialDefinition \<Rightarrow> PatientRecord \<Rightarrow> bool
     \<Rightarrow> ScreeningResponse \<times> EngineState" where
  "screening_request explain s t p generate_ai =
     (let response = \<lparr>sr_trial_id = td_id t, trial_name = td_name t,
                       sr_patient_id = pr_patient_id p,
                       result = with_explanation explain t p generate_ai,
                       screened_at = clock s\<rparr>
      in (response, s\<lparr>clock := Suc (clock s), audit := audit s @ [response]\<rparr>))"

text \<open>
  Modelled from the spec: the batch runner of section 4.3, absent with the backend. Each
  patient is screened on its own, in input order; a record whose screening fails is turned
  into a result with a diagnostic summary and the batch goes on; the counts are a fold over
  the results produced. The decision is written by its name, as \<open>BatchScreeningResult\<close>
  declares a string. Three things the specification leaves open are parameters: what the
  summary of a screened patient holds (\<open>summarise\<close>), which records fail and with which
  diagnostic (\<open>failure\<close>; the one example given, an unreadable value, is \<open>UNKNOWN\<close> and
  no failure by section 7), and the decision written for a failed record
  (\<open>failed_decision\<close>).
\<close>

text \<open>Modelled from the spec: the name under which the absent batch runner writes a decision (section 3).\<close>

definition decision_name :: "decision \<Rightarrow> string" where
  "decision_name d =
     (case d of ELIGIBLE \<Rightarrow> ''ELIGIBLE'' | INELIGIBLE \<Rightarrow> ''INELIGIBLE'' | UNCERTAIN \<Rightarrow> ''UNCERTAIN'')"

text \<open>Modelled from the spec: one step of the fold of the absent batch runner that computes the counts (section 4.3).\<close>

definition count_step :: "BatchScreeningResult \<Rightarrow> nat \<times> nat \<times> nat \<Rightarrow> nat \<times> nat \<times> nat" where
  "count_step r acc =
     (case acc of (e, i, u) \<Rightarrow>
        if b_decision r = ''ELIGIBLE'' then (Suc e, i, u)
        else if b_decision r = ''INELIGIBLE'' then (e, Suc i, u)
        else if b_decision r = ''UNCERTAIN'' then (e, i, Suc u)
        else (e, i, u))"

text \<open>
  Modelled from the spec: the result the absent batch runner produces for one patient
  (section 4.3): the diagnostic of a failed record, or the decision and summary of the
  patient's screening.
\<close>

definition batch_item ::
  "(EligibilityResult \<Rightarrow> string)
     \<Rightarrow> (string \<Rightarrow> string \<Rightarrow> EligibilityResult \<Rightarrow> GenerationError + string)
     \<Rightarrow> (PatientRecord \<Rightarrow> string option) \<Rightarrow> string
     \<Rightarrow> TrialDefinition \<Rightarrow> bool \<Rightarrow> PatientRecord \<Rightarrow> BatchScreeningResult" where
  "batch_item summarise explain failure failed_decision t generate_ai p =
     (case failure p of
        Some diagnostic \<Rightarrow>
          \<lparr>b_patient_id = pr_patient_id p, b_decision = failed_decision, summary = diagnostic\<rparr>
      | None \<Rightarrow>
          (let d = with_explanation explain t p generate_ai in
           \<lparr>b_patient_id = pr_patient_id p, b_decision = decision_name (decision d),
            summary = summarise d\<rparr>))"

text \<open>Modelled from the spec: \<open>run(trial, patients)\<close> of section 4.3, the absent batch runner.\<close>

definition run ::
  "(EligibilityResult \<Rightarrow> string)
     \<Rightarrow> (string \<Rightarrow> string \<Rightarrow> EligibilityResult \<Rightarrow> GenerationError + string)
     \<Rightarrow> (PatientRecord \<Rightarrow> string option) \<Rightarrow> string
     \<Rightarrow> TrialDefinition \<Rightarrow> PatientRecord list \<Rightarrow> bool \<Rightarrow> BatchScreeningResponse" where
  "run summarise explain failure failed_decision t ps generate_ai =
     (let rs = map (batch_item summarise explain failure failed_decision t generate_ai) ps
      in case fold count_step rs (0, 0, 0) of (e, i, u) \<Rightarrow>
           \<lparr>batch_trial_id = td_id t, total_patients = length ps,
            eligible_count = e, ineligible_count = i, uncertain_count = u,
            batch_results = rs\<rparr>)"

text \<open>
  Modelled from the spec: the data of the scenarios of section 8 (the reference dataset is
  not among the sources): a trial with an inclusion range on \<open>HbA1c\<close> up to 10, an
  exclusion on \<open>pregnancy_status\<close> listing \<open>Pregnant\<close> and an exclusion band on \<open>eGFR\<close>
  below 45; and patients with \<open>HbA1c\<close> in range, at 11.2, absent, and given as a text.
\<close>

definition scenario_trial :: TrialDefinition where
  "scenario_trial =
     \<lparr>td_id = ''DM2-2024-001'', td_name = ''Type 2 Diabetes Phase III'',
      inclusion_criteria =
        [\<lparr>crit_id = ''I1'', crit_text = ''HbA1c at most 10'', field = ''HbA1c'',
          kind = RANGE None (Some 10)\<rparr>],
      exclusion_criteria =
        [\<lparr>crit_id = ''E1'', crit_text = ''Pregnancy'', field = ''pregnancy_status'',
          kind = EXCLUDES_kind [''Pregnant'']\<rparr>,
         \<lparr>crit_id = ''E2'', crit_text = ''eGFR below 45'', field = ''eGFR'',
          kind = RANGE (Some 45) None\<rparr>]\<rparr>"

text \<open>Modelled from the spec: a patient of the absent reference dataset who meets every criterion (section 8).\<close>

definition patient_clean :: PatientRecord where
  "patient_clean =
     \<lparr>pr_patient_id = ''P001'',
      attributes = map_of [(''HbA1c'', NumberValue (39 / 5)), (''eGFR'', NumberValue 85),
                           (''pregnancy_status'', TextValue ''Not pregnant'')]\<rparr>"

text \<open>Modelled from the spec: the patient of section 8 with \<open>HbA1c\<close> 11.2 and \<open>eGFR\<close> 42; the reference dataset is absent.\<close>

definition patient_high_hba1c :: PatientRecord where
  "patient_high_hba1c =
     \<lparr>pr_patient_id = ''P003'',
      attributes = map_of [(''HbA1c'', NumberValue (56 / 5)), (''eGFR'', NumberValue 42)]\<rparr>"

text \<open>Modelled from the spec: the patient of section 8 without \<open>HbA1c\<close>; the reference dataset is absent.\<close>

definition patient_no_hba1c :: PatientRecord where
  "patient_no_hba1c =
     \<lparr>pr_patient_id = ''P008'',
      attributes = map_of [(''eGFR'', NumberValue 85),
                           (''pregnancy_status'', TextValue ''Not pregnant'')]\<rparr>"

text \<open>Modelled from the spec: a patient whose \<open>HbA1c\<close> is a text (section 7); the reference dataset is absent.\<close>

definition patient_text_hba1c :: PatientRecord where
  "patient_text_hba1c =
     \<lparr>pr_patient_id = ''P009'',
      attributes = map_of [(''HbA1c'', TextValue ''high''), (''eGFR'', NumberValue 85),
                           (''pregnancy_status'', TextValue ''Not pregnant'')]\<rparr>"

text \<open>
  Modelled from the spec: a summary for the scenarios (section 4.3 names the summary and
  not its content): the name of the decision.
\<close>

definition summary_of_decision :: "EligibilityResult \<Rightarrow> string" where
  "summary_of_decision d = decision_name (decision d)"

text \<open>Modelled from the spec: an explanation collaborator that fails (section 4.4).\<close>

definition collaborator_down :: "string \<Rightarrow> string \<Rightarrow> EligibilityResult \<Rightarrow> GenerationError + string" where
  "collaborator_down tn pid d = Inl (GenerationError ''down'')"

text \<open>
  Modelled from the spec: a runner in which no record fails, and one in which a record
  fails when its \<open>HbA1c\<close> is a text (the example of a malformed record in section 4.3).
\<close>

definition never_fails :: "PatientRecord \<Rightarrow> string option" where
  "never_fails p = None"

definition text_hba1c_fails :: "PatientRecord \<Rightarrow> string option" where
  "text_hba1c_fails p =
     (case attributes p ''HbA1c'' of
        Some (TextValue s) \<Rightarrow> Some ''HbA1c is not a number''
      | _ \<Rightarrow> None)"

section \<open>Facts about strings\<close>

lemma split_not_Nil: "split sep s \<noteq> []"
  by (induction s) (auto split: list.splits)

lemma split_no_sep: "p \<in> set (split sep s) \<Longrightarrow> sep \<notin> set p"
proof (induction s arbitrary: p)
  case Nil
  then show ?case by simp
next
  case (Cons c cs)
  obtain q qs where q: "split sep cs = q # qs"
    using split_not_Nil [of sep cs] by (cases "split sep cs") auto
  show ?case
  proof (cases "c = sep")
    case True
    with Cons show ?thesis by auto
  next
    case False
    with Cons.prems q have "p = c # q \<or> p \<in> set qs" by auto
    then show ?thesis
    proof
      assume "p = c # q"
      moreover have "sep \<notin> set q" using Cons.IH [of q] q by simp
      ultimately show ?thesis using False by auto
    next
      assume "p \<in> set qs"
      then show ?thesis using Cons.IH [of p] q by simp
    qed
  qed
qed

lemma join_split: "join sep (split sep s) = s"
proof (induction s)
  case Nil
  then show ?case by simp
next
  case (Cons c cs)
  obtain q qs where q: "split sep cs = q # qs"
    using split_not_Nil [of sep cs] by (cases "split sep cs") auto
  show ?case
  proof (cases "c = sep")
    case True
    with Cons q show ?thesis by simp
  next
    case False
    with Cons q show ?thesis by (cases qs) auto
  qed
qed

lemma split_join:
  "ps \<noteq> [] \<Longrightarrow> \<forall>p \<in> set ps. sep \<notin> set p \<Longrightarrow> split sep (join sep ps) = ps"
proof (induction sep ps rule: join.induct)
  case (1 sep)
  then show ?case by simp
next
  case (2 sep p)
  then show ?case by (induction p) auto
next
  case (3 sep p q ps)
  then have IH: "split sep (join sep (q # ps)) = q # ps" by simp
  from 3 have "sep \<notin> set p" by simp
  then have "split sep (p @ sep # join sep (q # ps)) = p # split sep (join sep (q # ps))"
    by (induction p) auto
  with IH show ?case by simp
qed

lemma split_unique:
  assumes "ps \<noteq> []" and "\<forall>p \<in> set ps. sep \<notin> set p" and "join sep ps = s"
  shows "ps = split sep s"
  using split_join [OF assms(1,2)] assms(3) by simp

lemma dropWhile_hd_id: "xs \<noteq> [] \<Longrightarrow> \<not> P (hd xs) \<Longrightarrow> dropWhile P xs = xs"
  by (cases xs) auto

lemma trim_no_ws_ends:
  assumes "trim s \<noteq> []"
  shows "\<not> is_ws (hd (trim s)) \<and> \<not> is_ws (last (trim s))"
proof -
  define t where "t = dropWhile is_ws s"
  define r where "r = dropWhile is_ws (rev t)"
  have tr: "trim s = rev r" by (simp add: trim_def r_def t_def)
  with assms have ne: "r \<noteq> []" by simp
  then have h: "\<not> is_ws (hd r)" unfolding r_def by (rule hd_dropWhile)
  have "rev t = takeWhile is_ws (rev t) @ r" by (simp add: r_def)
  then have "rev (rev t) = rev (takeWhile is_ws (rev t) @ r)" by simp
  then have t_eq: "t = rev r @ rev (takeWhile is_ws (rev t))" by simp
  with ne have "hd t = hd (rev r)" by (metis hd_append2 rev_is_Nil_conv)
  moreover from t_eq ne have "t \<noteq> []" by auto
  then have "\<not> is_ws (hd t)" unfolding t_def by (rule hd_dropWhile)
  ultimately have "\<not> is_ws (hd (rev r))" by simp
  with h ne tr show ?thesis by (simp add: last_rev)
qed

lemma trim_idem: "trim (trim s) = trim s"
proof (cases "trim s = []")
  case True
  moreover have "trim [] = []" by (simp add: trim_def)
  ultimately show ?thesis by simp
next
  case False
  from trim_no_ws_ends [OF False] have a: "\<not> is_ws (hd (trim s))" and b: "\<not> is_ws (last (trim s))"
    by simp_all
  from False a have 1: "dropWhile is_ws (trim s) = trim s" by (rule dropWhile_hd_id)
  from False b have 2: "dropWhile is_ws (rev (trim s)) = rev (trim s)"
    by (intro dropWhile_hd_id) (simp_all add: hd_rev)
  have "trim (trim s) = rev (dropWhile is_ws (rev (dropWhile is_ws (trim s))))"
    by (simp add: trim_def)
  with 1 2 show ?thesis by simp
qed

section \<open>Facts about the parsers\<close>

lemma set_column_patient_id: "patient_id (set_column h v p) = patient_id p"
  by (simp add: set_column_def)

lemma forEach_body_patient_id: "patient_id (forEach_body values ih p) = patient_id p"
  by (simp add: forEach_body_def set_column_patient_id split: option.splits)

lemma fold_forEach_patient_id: "patient_id (fold (forEach_body values) cols p) = patient_id p"
  by (induction cols arbitrary: p) (simp_all add: forEach_body_patient_id)

lemma show_nat_not_Nil: "show_nat n \<noteq> []"
  by (subst show_nat.simps) simp

lemma row_patient_id:
  assumes "row_patient headers k i line = Some p"
  shows "patient_id p =
     (case at_index (parseCSVLine line) k of
        Some v \<Rightarrow> if v \<noteq> [] then v else ''P'' @ show_nat i
      | None \<Rightarrow> ''P'' @ show_nat i)"
  using assms
  by (auto simp: row_patient_def Let_def fold_forEach_patient_id split: if_splits)

lemma row_patient_None:
  "row_patient headers k i line = None \<longleftrightarrow> list_all (\<lambda>v. trim v = []) (parseCSVLine line)"
  by (auto simp: row_patient_def Let_def)

lemma parseCSV_loop_eq:
  "parseCSV_loop headers k i ls =
     List.map_filter (\<lambda>(j, l). row_patient headers k j l) (enumerate i ls)"
  by (induction ls arbitrary: i) (auto simp: List.map_filter_simps split: option.splits)

lemma forEach_body_eq:
  "forEach_body values (j, h) p =
     (if cell_text values j = [] then p else set_column h (cell_text values j) p)"
  by (simp add: forEach_body_def cell_text_def split: option.splits)

lemma fold_forEach_skip:
  assumes pres: "\<And>h v q. h \<noteq> name \<Longrightarrow> g (set_column h v q) = g q"
    and skip: "\<forall>(j, h) \<in> set cols. h = name \<longrightarrow> cell_text values j = []"
  shows "g (fold (forEach_body values) cols p) = g p"
  using skip
proof (induction cols arbitrary: p)
  case Nil
  then show ?case by simp
next
  case (Cons c cols)
  obtain j h where c: "c = (j, h)" by (cases c)
  from Cons.prems c have "h = name \<longrightarrow> cell_text values j = []" by simp
  then have "g (forEach_body values (j, h) p) = g p"
    by (auto simp: forEach_body_eq pres)
  moreover from Cons.prems have "\<forall>(j, h) \<in> set cols. h = name \<longrightarrow> cell_text values j = []"
    by simp
  ultimately show ?case using Cons.IH c by simp
qed

lemma last_column_decides:
  assumes pres: "\<And>h v q. h \<noteq> name \<Longrightarrow> g (set_column h v q) = g q"
    and sets: "\<And>v q. g (set_column name v q) = f v"
    and idx: "idx < length headers" and name: "headers ! idx = name"
    and cell: "cell_text values idx \<noteq> []"
    and later: "\<forall>j. idx < j \<and> j < length headers \<and> headers ! j = name \<longrightarrow> cell_text values j = []"
  shows "g (fold (forEach_body values) (enumerate 0 headers) p) = f (cell_text values idx)"
proof -
  let ?before = "enumerate 0 (take idx headers)"
  let ?after = "enumerate (Suc idx) (drop (Suc idx) headers)"
  have "headers = take idx headers @ headers ! idx # drop (Suc idx) headers"
    using idx by (simp add: id_take_nth_drop)
  then have "enumerate 0 headers
      = enumerate 0 (take idx headers @ headers ! idx # drop (Suc idx) headers)" by simp
  also have "\<dots> = ?before @ (idx, name) # ?after"
    using idx name by (simp add: enumerate_append_eq min_def)
  finally have cols: "enumerate 0 headers = ?before @ (idx, name) # ?after" .
  have skip: "\<forall>(j, h) \<in> set ?after. h = name \<longrightarrow> cell_text values j = []"
  proof (clarify)
    fix j h
    assume jh: "(j, name) \<in> set ?after"
    then have "Suc idx \<le> j" and "j < length headers" and "drop (Suc idx) headers ! (j - Suc idx) = name"
      by (auto simp: in_set_enumerate_eq)
    then have "idx < j \<and> j < length headers \<and> headers ! j = name" by auto
    with later show "cell_text values j = []" by blast
  qed
  let ?q = "fold (forEach_body values) ?before p"
  have "g (fold (forEach_body values) (enumerate 0 headers) p)
      = g (fold (forEach_body values) ?after (forEach_body values (idx, name) ?q))"
    by (simp add: cols)
  also have "\<dots> = g (forEach_body values (idx, name) ?q)"
    by (rule fold_forEach_skip [OF pres skip])
  also have "\<dots> = f (cell_text values idx)"
    using cell by (simp add: forEach_body_eq sets)
  finally show ?thesis .
qed

lemma row_patient_fold:
  assumes "row_patient headers k i line = Some p"
  shows "\<exists>p0. p = fold (forEach_body (parseCSVLine line)) (enumerate 0 headers) p0"
  using assms by (auto simp: row_patient_def Let_def split: if_splits)

lemma or_undefined_None: "\<not> truthy_num x \<Longrightarrow> or_undefined x = None"
  by (simp add: or_undefined_def)


lemma is_digit_10_cases:
  assumes "is_digit_in 10 c"
  shows "c \<in> set ''0123456789''"
proof -
  define n where "n = (of_char c :: nat)"
  from assms have "48 \<le> n \<and> n \<le> 57"
    by (auto simp: n_def is_digit_in_def digit_val_def Let_def split: if_splits option.splits)
  then have "n = 48 \<or> n = 49 \<or> n = 50 \<or> n = 51 \<or> n = 52 \<or> n = 53 \<or> n = 54 \<or> n = 55
      \<or> n = 56 \<or> n = 57" by arith
  moreover have "c = char_of n" by (simp add: n_def)
  ultimately have "c = char_of (48::nat) \<or> c = char_of (49::nat) \<or> c = char_of (50::nat)
      \<or> c = char_of (51::nat) \<or> c = char_of (52::nat) \<or> c = char_of (53::nat)
      \<or> c = char_of (54::nat) \<or> c = char_of (55::nat) \<or> c = char_of (56::nat)
      \<or> c = char_of (57::nat)" by blast
  then show ?thesis by (simp add: char_of_def bit_Suc_0_iff)
qed

lemma no_numeric_prefix:
  assumes "v \<noteq> []" and "\<not> is_ws (hd v)" and "hd v \<notin> set ''+-.0123456789I''"
  shows "parseInt v = NaN \<and> parseFloat v = NaN"
proof -
  from assms(1) obtain c r where v: "v = c # r" by (cases v) auto
  with assms have c: "\<not> is_ws c" "c \<noteq> CHR ''+''" "c \<noteq> CHR ''-''" "c \<noteq> CHR ''.''" "c \<noteq> CHR ''I''"
    "c \<noteq> CHR ''0''" by auto
  from assms(3) v have "c \<notin> set ''0123456789''" by auto
  with is_digit_10_cases have d: "\<not> is_digit_in 10 c" by blast
  have ts: "take_sign (trimStart v) = (False, v)"
    using c by (simp add: v trimStart_def take_sign_def)
  have "parseInt v = NaN"
    using c d by (cases r) (simp_all add: parseInt_def ts, simp_all add: v)
  moreover have "parseFloat v = NaN"
    using c d by (simp add: parseFloat_def ts, simp add: v)
  ultimately show ?thesis ..
qed

lemma digit_val_char_of: "d < 10 \<Longrightarrow> digit_val (char_of (48 + d)) = Some d"
  by (simp add: digit_val_def Let_def)

lemma show_nat_value: "digits_value 10 (show_nat n) = n"
proof (induction n rule: less_induct)
  case (less n)
  show ?case
  proof (cases "n < 10")
    case True
    then show ?thesis by (subst show_nat.simps) (simp add: digits_value_def digit_val_char_of)
  next
    case False
    then have "n div 10 < n" by simp
    from less [OF this] have ih: "digits_value 10 (show_nat (n div 10)) = n div 10" .
    have "digits_value 10 (show_nat n)
        = digits_value 10 (show_nat (n div 10)) * 10 + n mod 10"
      using False by (subst show_nat.simps) (simp add: digits_value_def digit_val_char_of)
    with ih show ?thesis by simp
  qed
qed

lemma parseCSV_patients_are_rows:
  assumes "parseCSV content = Inr ps" and "p \<in> set ps"
  shows "\<exists>k i line. line \<in> set (tl (split CHR 0x0A (trim content)))
     \<and> row_patient (map (\<lambda>h. toLowerCase (trim h))
            (split CHR '','' (hd (split CHR 0x0A (trim content))))) k i line = Some p"
proof -
  define lines where "lines = split CHR 0x0A (trim content)"
  define headers where "headers = map (\<lambda>h. toLowerCase (trim h)) (split CHR '','' (hd lines))"
  from assms(1) obtain k where "ps = parseCSV_loop headers k 1 (tl lines)"
    by (auto simp: parseCSV_def Let_def lines_def headers_def split: if_splits option.splits)
  then have "ps = List.map_filter (\<lambda>(i, line). row_patient headers k i line) (enumerate 1 (tl lines))"
    by (simp add: parseCSV_loop_eq)
  with assms(2) obtain i line where "(i, line) \<in> set (enumerate 1 (tl lines))"
    and "row_patient headers k i line = Some p"
    by (auto simp: List.map_filter_def)
  moreover then have "line \<in> set (tl lines)" by (auto simp: in_set_enumerate_eq)
  ultimately show ?thesis unfolding headers_def lines_def by blast
qed

lemma or_else_truthy: "truthy d \<Longrightarrow> truthy (or_else x d)"
  by (simp add: or_else_def split: option.splits)

lemma map_entries_length:
  "map_entries es n = Inr qs \<Longrightarrow> length qs = length es"
  by (induction es arbitrary: n qs) (auto split: sum.splits)

lemma map_entries_nth:
  "map_entries es n = Inr qs \<Longrightarrow> m < length es \<Longrightarrow> json_patient (es ! m) (n + m) = Inr (qs ! m)"
proof (induction es arbitrary: n qs m)
  case Nil
  then show ?case by simp
next
  case (Cons e es)
  from Cons.prems(1) obtain x xs where x: "json_patient e n = Inr x"
    and xs: "map_entries es (Suc n) = Inr xs" and qs: "qs = x # xs"
    by (auto split: sum.splits)
  show ?case
  proof (cases m)
    case 0
    with x qs show ?thesis by simp
  next
    case (Suc m')
    with Cons.prems(2) have "m' < length es" by simp
    from Cons.IH [OF xs this] Suc qs show ?thesis by simp
  qed
qed

lemma json_patient_id:
  "json_patient e n = Inr q \<Longrightarrow>
     patient_id q = or_else (get_prop e ''patient_id'') (JStr (''P'' @ show_nat (n + 1)))"
  by (cases e) (auto simp: json_patient_def)

lemma findIndex_Some:
  "findIndex P xs = Some k \<Longrightarrow> k < length xs \<and> P (xs ! k) \<and> (\<forall>j < k. \<not> P (xs ! j))"
proof (induction xs arbitrary: k)
  case Nil
  then show ?case by simp
next
  case (Cons x xs)
  show ?case
  proof (cases "P x")
    case True
    with Cons.prems show ?thesis by simp
  next
    case False
    with Cons.prems obtain k' where k': "findIndex P xs = Some k'" and k: "k = Suc k'"
      by auto
    from Cons.IH [OF k'] have ih: "k' < length xs \<and> P (xs ! k') \<and> (\<forall>j < k'. \<not> P (xs ! j))" .
    have "\<not> P ((x # xs) ! j)" if "j < k" for j
      using that ih False k by (cases j) auto
    with ih k show ?thesis by simp
  qed
qed

text \<open>
  What the two parsers give as \<open>patient_id\<close>: for a CSV file, the patients are those of
  the data lines in file order, the lines whose cells are all blank left out, and the
  \<open>patient_id\<close> is the untrimmed cell of the first identifier column, or \<open>P\<close> and the
  digits of the line number when that cell is empty or the row has none; for a JSON file,
  one patient for each entry in order, with the entry's property when it is truthy and
  \<open>P\<close> and the digits of the index plus one otherwise.
\<close>

lemma parsed_patient_ids:
  "(parseCSV content = Inr ps \<longrightarrow>
      (\<forall>p \<in> set ps. patient_id p \<noteq> [])
    \<and> (\<exists>headers k.
          headers = map (\<lambda>h. toLowerCase (trim h))
                      (split CHR '','' (hd (split CHR 0x0A (trim content))))
        \<and> findIndex (\<lambda>h. h = ''patient_id'' \<or> h = ''patientid'' \<or> h = ''id'') headers = Some k
        \<and> k < length headers \<and> headers ! k \<in> {''patient_id'', ''patientid'', ''id''}
        \<and> (\<forall>j < k. headers ! j \<notin> {''patient_id'', ''patientid'', ''id''})
        \<and> ps = List.map_filter (\<lambda>(i, line). row_patient headers k i line)
                 (enumerate 1 (tl (split CHR 0x0A (trim content))))))
  \<and> (row_patient hs k i line = None \<longleftrightarrow> list_all (\<lambda>v. trim v = []) (parseCSVLine line))
  \<and> (row_patient hs k i line = Some p \<longrightarrow>
        patient_id p = (case at_index (parseCSVLine line) k of
                          Some v \<Rightarrow> if v \<noteq> [] then v else ''P'' @ show_nat i
                        | None \<Rightarrow> ''P'' @ show_nat i))
  \<and> digits_value 10 (show_nat i) = i
  \<and> (parseJSON JSON_parse content = Inr qs \<longrightarrow>
        (\<exists>entries. JSON_parse content = Some (JArr entries) \<and> length qs = length entries
          \<and> (\<forall>n < length entries.
                 patient_id (qs ! n)
                   = or_else (get_prop (entries ! n) ''patient_id'') (JStr (''P'' @ show_nat (n + 1)))
               \<and> truthy (patient_id (qs ! n)) \<and> patient_id (qs ! n) \<noteq> JStr [])))"
proof -
  have csv: "(\<forall>p \<in> set ps. patient_id p \<noteq> [])
    \<and> (\<exists>headers k.
          headers = map (\<lambda>h. toLowerCase (trim h))
                      (split CHR '','' (hd (split CHR 0x0A (trim content))))
        \<and> findIndex (\<lambda>h. h = ''patient_id'' \<or> h = ''patientid'' \<or> h = ''id'') headers = Some k
        \<and> k < length headers \<and> headers ! k \<in> {''patient_id'', ''patientid'', ''id''}
        \<and> (\<forall>j < k. headers ! j \<notin> {''patient_id'', ''patientid'', ''id''})
        \<and> ps = List.map_filter (\<lambda>(i, line). row_patient headers k i line)
                 (enumerate 1 (tl (split CHR 0x0A (trim content)))))"
    if ok: "parseCSV content = Inr ps"
  proof -
    define lines where "lines = split CHR 0x0A (trim content)"
    define headers where "headers = map (\<lambda>h. toLowerCase (trim h)) (split CHR '','' (hd lines))"
    from ok obtain k where
      k: "findIndex (\<lambda>h. h = ''patient_id'' \<or> h = ''patientid'' \<or> h = ''id'') headers = Some k"
      and ps: "ps = parseCSV_loop headers k 1 (tl lines)"
      by (auto simp: parseCSV_def Let_def lines_def headers_def split: if_splits option.splits)
    have eq: "ps = List.map_filter (\<lambda>(i, line). row_patient headers k i line) (enumerate 1 (tl lines))"
      by (simp add: ps parseCSV_loop_eq)
    have "patient_id p \<noteq> []" if "p \<in> set ps" for p
    proof -
      from that eq obtain j l where "row_patient headers k j l = Some p"
        by (auto simp: List.map_filter_def)
      from row_patient_id [OF this] show ?thesis
        by (auto split: option.splits if_splits)
    qed
    moreover from findIndex_Some [OF k]
    have "k < length headers \<and> headers ! k \<in> {''patient_id'', ''patientid'', ''id''}
        \<and> (\<forall>j < k. headers ! j \<notin> {''patient_id'', ''patientid'', ''id''})" by auto
    ultimately show ?thesis using k eq unfolding headers_def lines_def by blast
  qed
  have js: "\<exists>entries. JSON_parse content = Some (JArr entries) \<and> length qs = length entries
          \<and> (\<forall>n < length entries.
                 patient_id (qs ! n)
                   = or_else (get_prop (entries ! n) ''patient_id'') (JStr (''P'' @ show_nat (n + 1)))
               \<and> truthy (patient_id (qs ! n)) \<and> patient_id (qs ! n) \<noteq> JStr [])"
    if ok: "parseJSON JSON_parse content = Inr qs"
  proof -
    from ok obtain entries where e: "JSON_parse content = Some (JArr entries)"
      and m: "map_entries entries 0 = Inr qs"
      by (auto simp: parseJSON_def split: option.splits json.splits)
    have "patient_id (qs ! n)
            = or_else (get_prop (entries ! n) ''patient_id'') (JStr (''P'' @ show_nat (n + 1)))
          \<and> truthy (patient_id (qs ! n)) \<and> patient_id (qs ! n) \<noteq> JStr []"
      if "n < length entries" for n
    proof -
      from map_entries_nth [OF m that] have "json_patient (entries ! n) n = Inr (qs ! n)" by simp
      from json_patient_id [OF this]
      have id: "patient_id (qs ! n)
            = or_else (get_prop (entries ! n) ''patient_id'') (JStr (''P'' @ show_nat (n + 1)))" .
      have "truthy (JStr (''P'' @ show_nat (n + 1)))" by (simp add: truthy_def)
      then have t: "truthy (patient_id (qs ! n))" unfolding id by (rule or_else_truthy)
      then have "patient_id (qs ! n) \<noteq> JStr []" by (auto simp: truthy_def)
      with id t show ?thesis by simp
    qed
    with e map_entries_length [OF m] show ?thesis by blast
  qed
  from csv js row_patient_None [of hs k i line] row_patient_id [of hs k i line p]
    show_nat_value [of i]
  show ?thesis by blast
qed

section \<open>Evaluation rules\<close>

text \<open>The definitions that evaluate the parsers on a given text.\<close>

lemmas js_eval =
  is_ws_def trimStart_def trim_def filter_Boolean_def truthy_num_def Number_of_def
  digit_val_def is_digit_in_def digits_value_def take_sign_def parseInt_def pow10_def
  parse_exponent_def parseFloat_def or_undefined_def lower_char_def toLowerCase_def
  at_index_def char_of_def bit_Suc_0_iff Let_def

lemmas csv_eval =
  parseCSVLine_def set_column_def forEach_body_def cell_text_def row_patient_def parseCSV_def
  enumerate_eq_zip show_nat.simps

section \<open>Facts about the engine\<close>

lemma missing_fields_set:
  "set (missing_fields tagged) = fst ` {fr \<in> set tagged. status (snd fr) = UNKNOWN}"
  by (auto simp: missing_fields_def)

lemma missing_fields_Nil_iff:
  "missing_fields tagged = [] \<longleftrightarrow> (\<forall>fr \<in> set tagged. status (snd fr) \<noteq> UNKNOWN)"
proof -
  have "missing_fields tagged = [] \<longleftrightarrow> set (missing_fields tagged) = {}" by simp
  also have "\<dots> \<longleftrightarrow> (\<forall>fr \<in> set tagged. status (snd fr) \<noteq> UNKNOWN)"
    unfolding missing_fields_set by auto
  finally show ?thesis .
qed

lemma status_of_UNKNOWN_iff:
  "status_of u k x = UNKNOWN \<longleftrightarrow> x = None \<or> (\<exists>a. x = Some a \<and> \<not> readable k a)"
proof (cases x)
  case None
  then show ?thesis by simp
next
  case (Some a)
  then show ?thesis
    by (cases k; cases a; cases u) (simp_all add: readable_def entries_of_def)
qed

lemma decision_with_explanation:
  "decision (with_explanation explain t p g) = decision (screen_patient t p)
   \<and> inclusion_results (with_explanation explain t p g) = inclusion_results (screen_patient t p)
   \<and> exclusion_results (with_explanation explain t p g) = exclusion_results (screen_patient t p)
   \<and> missing_data (with_explanation explain t p g) = missing_data (screen_patient t p)"
  by (simp add: with_explanation_def Let_def split: sum.splits)




text \<open>The definitions that evaluate the engine on the data of the scenarios.\<close>

lemmas engine_eval =
  scenario_trial_def patient_clean_def patient_high_hba1c_def patient_no_hba1c_def
  patient_text_hba1c_def screen_patient_def aggregate_def missing_fields_def decide_def
  evaluate_def within_bounds_def in_exclusion_band_def matches_def entries_of_def readable_def
  with_explanation_def screening_request_def run_def batch_item_def count_step_def
  decision_name_def summary_of_decision_def collaborator_down_def never_fails_def
  text_hba1c_fails_def
  toLowerCase_def lower_char_def char_of_def bit_Suc_0_iff Let_def

section \<open>The decision policy\<close>

text \<open>
  C1. For all lists of inclusion and exclusion results, the decision of \<open>aggregate\<close> is
  \<open>INELIGIBLE\<close> if some inclusion result is \<open>NOT_MET\<close> or some exclusion result is
  \<open>EXCLUDES\<close>, whether or not \<open>missing_data\<close> is empty; otherwise \<open>UNCERTAIN\<close> if
  \<open>missing_data\<close> is not empty, which is when some result is \<open>UNKNOWN\<close>; otherwise
  \<open>ELIGIBLE\<close>. Where the inclusion results carry the statuses of inclusion (\<open>MET\<close>,
  \<open>NOT_MET\<close>, \<open>UNKNOWN\<close>) and the exclusion results those of exclusion (\<open>EXCLUDES\<close>,
  \<open>CLEAR\<close>, \<open>UNKNOWN\<close>), the decision is \<open>ELIGIBLE\<close> exactly when every inclusion
  result is \<open>MET\<close> and every exclusion result is \<open>CLEAR\<close>.
\<close>

theorem aggregate_priority:
  "decision (aggregate inc exc) =
     (if (\<exists>r \<in> set (inclusion_results (aggregate inc exc)). status r = NOT_MET)
         \<or> (\<exists>r \<in> set (exclusion_results (aggregate inc exc)). status r = EXCLUDES)
      then INELIGIBLE
      else if missing_data (aggregate inc exc) \<noteq> [] then UNCERTAIN
      else ELIGIBLE)
   \<and> inclusion_results (aggregate inc exc) = map snd inc
   \<and> exclusion_results (aggregate inc exc) = map snd exc
   \<and> (missing_data (aggregate inc exc) \<noteq> []
        \<longleftrightarrow> (\<exists>r \<in> set (map snd inc) \<union> set (map snd exc). status r = UNKNOWN))
   \<and> ((\<forall>r \<in> set (map snd inc). status r \<in> {MET, NOT_MET, UNKNOWN})
        \<and> (\<forall>r \<in> set (map snd exc). status r \<in> {EXCLUDES, CLEAR, UNKNOWN})
      \<longrightarrow> (decision (aggregate inc exc) = ELIGIBLE
            \<longleftrightarrow> (\<forall>r \<in> set (map snd inc). status r = MET)
              \<and> (\<forall>r \<in> set (map snd exc). status r = CLEAR)))"
proof -
  have m: "missing_data (aggregate inc exc) = missing_fields (inc @ exc)"
    and i: "inclusion_results (aggregate inc exc) = map snd inc"
    and e: "exclusion_results (aggregate inc exc) = map snd exc"
    by (simp_all add: aggregate_def Let_def)
  have d: "decision (aggregate inc exc) =
     (if (\<exists>r \<in> set (map snd inc). status r = NOT_MET) \<or> (\<exists>r \<in> set (map snd exc). status r = EXCLUDES)
      then INELIGIBLE
      else if missing_fields (inc @ exc) \<noteq> [] then UNCERTAIN
      else ELIGIBLE)"
    by (simp add: aggregate_def Let_def decide_def list_ex_iff)
  have u: "missing_fields (inc @ exc) \<noteq> []
        \<longleftrightarrow> (\<exists>r \<in> set (map snd inc) \<union> set (map snd exc). status r = UNKNOWN)"
    unfolding missing_fields_Nil_iff by auto
  have w: "decision (aggregate inc exc) = ELIGIBLE
            \<longleftrightarrow> (\<forall>r \<in> set (map snd inc). status r = MET)
              \<and> (\<forall>r \<in> set (map snd exc). status r = CLEAR)"
    if wi: "\<forall>r \<in> set (map snd inc). status r \<in> {MET, NOT_MET, UNKNOWN}"
      and we: "\<forall>r \<in> set (map snd exc). status r \<in> {EXCLUDES, CLEAR, UNKNOWN}"
  proof
    assume el: "decision (aggregate inc exc) = ELIGIBLE"
    with d have n: "\<not> ((\<exists>r \<in> set (map snd inc). status r = NOT_MET)
        \<or> (\<exists>r \<in> set (map snd exc). status r = EXCLUDES))"
      by (auto split: if_splits)
    with el d have "missing_fields (inc @ exc) = []" by (auto split: if_splits)
    with u have k: "\<not> (\<exists>r \<in> set (map snd inc) \<union> set (map snd exc). status r = UNKNOWN)" by simp
    show "(\<forall>r \<in> set (map snd inc). status r = MET) \<and> (\<forall>r \<in> set (map snd exc). status r = CLEAR)"
    proof (intro conjI ballI)
      fix r assume "r \<in> set (map snd inc)"
      with wi n k show "status r = MET" by blast
    next
      fix r assume "r \<in> set (map snd exc)"
      with we n k show "status r = CLEAR" by blast
    qed
  next
    assume a: "(\<forall>r \<in> set (map snd inc). status r = MET) \<and> (\<forall>r \<in> set (map snd exc). status r = CLEAR)"
    then have "\<not> (\<exists>r \<in> set (map snd inc) \<union> set (map snd exc). status r = UNKNOWN)" by auto
    with u have "missing_fields (inc @ exc) = []" by simp
    moreover from a have "\<not> ((\<exists>r \<in> set (map snd inc). status r = NOT_MET)
        \<or> (\<exists>r \<in> set (map snd exc). status r = EXCLUDES))" by auto
    ultimately show "decision (aggregate inc exc) = ELIGIBLE" using d by simp
  qed
  from d u w show ?thesis unfolding m i e by blast
qed

text \<open>
  A failed inclusion criterion beside an unknown one, and the patient of the scenarios who
  meets everything.
\<close>

theorem aggregate_priority_witness:
  "decision (aggregate
      [(''HbA1c'', \<lparr>criterion_id = ''I1'', criterion_text = ''HbA1c at most 10'', status = NOT_MET,
                    actual_value = Some (NumberValue (56 / 5)), reason = None\<rparr>),
       (''age'', \<lparr>criterion_id = ''I2'', criterion_text = ''Age 18 to 75'', status = UNKNOWN,
                  actual_value = None, reason = None\<rparr>)] []) = INELIGIBLE
   \<and> missing_data (aggregate
      [(''HbA1c'', \<lparr>criterion_id = ''I1'', criterion_text = ''HbA1c at most 10'', status = NOT_MET,
                    actual_value = Some (NumberValue (56 / 5)), reason = None\<rparr>),
       (''age'', \<lparr>criterion_id = ''I2'', criterion_text = ''Age 18 to 75'', status = UNKNOWN,
                  actual_value = None, reason = None\<rparr>)] []) = [''age'']
   \<and> decision (screen_patient scenario_trial patient_clean) = ELIGIBLE
   \<and> map status (inclusion_results (screen_patient scenario_trial patient_clean)) = [MET]
   \<and> map status (exclusion_results (screen_patient scenario_trial patient_clean)) = [CLEAR, CLEAR]
   \<and> decision (screen_patient scenario_trial patient_no_hba1c) = UNCERTAIN"
  using aggregate_priority
    [of "[(''HbA1c'', \<lparr>criterion_id = ''I1'', criterion_text = ''HbA1c at most 10'', status = NOT_MET,
                    actual_value = Some (NumberValue (56 / 5)), reason = None\<rparr>),
       (''age'', \<lparr>criterion_id = ''I2'', criterion_text = ''Age 18 to 75'', status = UNKNOWN,
                  actual_value = None, reason = None\<rparr>)]" "[]"]
    aggregate_priority
    [of "map (\<lambda>c. (field c, evaluate Inclusion c patient_clean)) (inclusion_criteria scenario_trial)"
        "map (\<lambda>c. (field c, evaluate Exclusion c patient_clean)) (exclusion_criteria scenario_trial)"]
  by (simp add: engine_eval)

section \<open>The batch runner\<close>




section \<open>Missing and unreadable values\<close>

text \<open>
  C3. Take a criterion of the trial, used for inclusion or for exclusion, and a patient
  whose record lacks the criterion's field or holds under it a value that the criterion's
  kind cannot read (a text under a \<open>RANGE\<close> criterion, say). Then the status of the
  criterion is \<open>UNKNOWN\<close>, the result echoes what was read (so nothing when the field is
  absent: no default takes its place), the result is among those of the screening, and
  the field's name is in the \<open>missing_data\<close> of the decision. \<open>evaluate\<close> and
  \<open>screen_patient\<close> are total: there is no error to raise.
\<close>

theorem missing_or_unreadable_is_unknown:
  assumes crit: "(u = Inclusion \<and> c \<in> set (inclusion_criteria t))
               \<or> (u = Exclusion \<and> c \<in> set (exclusion_criteria t))"
    and miss: "attributes p (field c) = None
               \<or> (\<exists>a. attributes p (field c) = Some a \<and> \<not> readable (kind c) a)"
  shows "status (evaluate u c p) = UNKNOWN
       \<and> actual_value (evaluate u c p) = attributes p (field c)
       \<and> field c \<in> set (missing_data (screen_patient t p))
       \<and> (u = Inclusion \<longrightarrow> evaluate u c p \<in> set (inclusion_results (screen_patient t p)))
       \<and> (u = Exclusion \<longrightarrow> evaluate u c p \<in> set (exclusion_results (screen_patient t p)))"
proof -
  from miss have s: "status (evaluate u c p) = UNKNOWN"
    by (simp add: evaluate_def status_of_UNKNOWN_iff)
  have a: "actual_value (evaluate u c p) = attributes p (field c)"
    by (simp add: evaluate_def)
  let ?inc = "map (\<lambda>c. (field c, evaluate Inclusion c p)) (inclusion_criteria t)"
  let ?exc = "map (\<lambda>c. (field c, evaluate Exclusion c p)) (exclusion_criteria t)"
  from crit have "(field c, evaluate u c p) \<in> set (?inc @ ?exc)" by auto
  with s have "field c \<in> fst ` {fr \<in> set (?inc @ ?exc). status (snd fr) = UNKNOWN}"
    by force
  then have m: "field c \<in> set (missing_data (screen_patient t p))"
    by (simp add: screen_patient_def aggregate_def Let_def missing_fields_set)
  have i: "evaluate u c p \<in> set (inclusion_results (screen_patient t p))" if "u = Inclusion"
    using crit that by (auto simp: screen_patient_def aggregate_def Let_def)
  have e: "evaluate u c p \<in> set (exclusion_results (screen_patient t p))" if "u = Exclusion"
    using crit that by (auto simp: screen_patient_def aggregate_def Let_def)
  from s a m i e show ?thesis by blast
qed

text \<open>The patient without \<open>HbA1c\<close>, and the one whose \<open>HbA1c\<close> is a text.\<close>

theorem missing_or_unreadable_is_unknown_witness:
  "status (evaluate Inclusion (hd (inclusion_criteria scenario_trial)) patient_no_hba1c) = UNKNOWN
   \<and> attributes patient_no_hba1c ''HbA1c'' = None
   \<and> ''HbA1c'' \<in> set (missing_data (screen_patient scenario_trial patient_no_hba1c))
   \<and> status (evaluate Inclusion (hd (inclusion_criteria scenario_trial)) patient_text_hba1c) = UNKNOWN
   \<and> attributes patient_text_hba1c ''HbA1c'' = Some (TextValue ''high'')
   \<and> \<not> readable (RANGE None (Some 10)) (TextValue ''high'')
   \<and> missing_data (screen_patient scenario_trial patient_text_hba1c) = [''HbA1c'']
   \<and> decision (screen_patient scenario_trial patient_text_hba1c) = UNCERTAIN
   \<and> status (evaluate Exclusion (hd (exclusion_criteria scenario_trial)) patient_high_hba1c) = UNKNOWN"
proof -
  let ?c = "hd (inclusion_criteria scenario_trial)"
  let ?e = "hd (exclusion_criteria scenario_trial)"
  have c: "(Inclusion = Inclusion \<and> ?c \<in> set (inclusion_criteria scenario_trial))
         \<or> (Inclusion = Exclusion \<and> ?c \<in> set (exclusion_criteria scenario_trial))"
    by (simp add: scenario_trial_def)
  have e: "(Exclusion = Inclusion \<and> ?e \<in> set (inclusion_criteria scenario_trial))
         \<or> (Exclusion = Exclusion \<and> ?e \<in> set (exclusion_criteria scenario_trial))"
    by (simp add: scenario_trial_def)
  have f: "field ?c = ''HbA1c''" "kind ?c = RANGE None (Some 10)"
    "field ?e = ''pregnancy_status''"
    by (simp_all add: scenario_trial_def)
  have m1: "attributes patient_no_hba1c (field ?c) = None
      \<or> (\<exists>a. attributes patient_no_hba1c (field ?c) = Some a \<and> \<not> readable (kind ?c) a)"
    by (simp add: f patient_no_hba1c_def)
  have m2: "attributes patient_text_hba1c (field ?c) = None
      \<or> (\<exists>a. attributes patient_text_hba1c (field ?c) = Some a \<and> \<not> readable (kind ?c) a)"
    by (simp add: f patient_text_hba1c_def readable_def)
  have m3: "attributes patient_high_hba1c (field ?e) = None
      \<or> (\<exists>a. attributes patient_high_hba1c (field ?e) = Some a \<and> \<not> readable (kind ?e) a)"
    by (simp add: f patient_high_hba1c_def)
  note t1 = missing_or_unreadable_is_unknown [OF c m1]
  note t2 = missing_or_unreadable_is_unknown [OF c m2]
  note t3 = missing_or_unreadable_is_unknown [OF e m3]
  have r: "attributes patient_no_hba1c ''HbA1c'' = None"
    "attributes patient_text_hba1c ''HbA1c'' = Some (TextValue ''high'')"
    "\<not> readable (RANGE None (Some 10)) (TextValue ''high'')"
    "missing_data (screen_patient scenario_trial patient_text_hba1c) = [''HbA1c'']"
    "decision (screen_patient scenario_trial patient_text_hba1c) = UNCERTAIN"
    by (simp_all add: engine_eval)
  from t1 t2 t3 r show ?thesis by (simp add: f)
qed

section \<open>Range criteria\<close>



section \<open>The explanation is optional\<close>

text \<open>
  C6. For every screening request, whatever the explanation collaborator does, the
  request returns a response whose decision, criterion results and missing data are those
  of the screening, and hands it to the audit sink. The explanation is the collaborator's
  text when one was asked for and obtained, and is absent otherwise: a failure of the
  collaborator leaves a result without explanation. The dashboard shows the decision of
  every response, and shows no explanation block when the explanation is absent.
\<close>

theorem explanation_failure_is_soft:
  "decision (result (fst (screening_request explain s t p g))) = decision (screen_patient t p)
   \<and> inclusion_results (result (fst (screening_request explain s t p g)))
       = inclusion_results (screen_patient t p)
   \<and> exclusion_results (result (fst (screening_request explain s t p g)))
       = exclusion_results (screen_patient t p)
   \<and> missing_data (result (fst (screening_request explain s t p g)))
       = missing_data (screen_patient t p)
   \<and> ai_explanation (result (fst (screening_request explain s t p g)))
       = (if g then (case explain (td_name t) (pr_patient_id p) (screen_patient t p) of
                       Inr text \<Rightarrow> Some text | Inl e \<Rightarrow> None)
          else None)
   \<and> audit (snd (screening_request explain s t p g))
       = audit s @ [fst (screening_request explain s t p g)]
   \<and> DecisionBanner (decision (screen_patient t p))
       \<in> set (ResultsDashboard (Some (fst (screening_request explain s t p g))))
   \<and> (ai_explanation (result (fst (screening_request explain s t p g))) = None
        \<longrightarrow> (\<forall>text. AIExplanation text
               \<notin> set (ResultsDashboard (Some (fst (screening_request explain s t p g))))))"
proof -
  let ?r = "fst (screening_request explain s t p g)"
  have r: "result ?r = with_explanation explain t p g"
    by (simp add: screening_request_def Let_def)
  have x: "ai_explanation (result ?r)
       = (if g then (case explain (td_name t) (pr_patient_id p) (screen_patient t p) of
                       Inr text \<Rightarrow> Some text | Inl e \<Rightarrow> None)
          else None)"
    by (simp add: r with_explanation_def Let_def screen_patient_def aggregate_def split: sum.splits)
  have a: "audit (snd (screening_request explain s t p g)) = audit s @ [?r]"
    by (simp add: screening_request_def Let_def)
  have d: "decision (result ?r) = decision (screen_patient t p)"
    by (simp add: r decision_with_explanation)
  have b: "DecisionBanner (decision (screen_patient t p)) \<in> set (ResultsDashboard (Some ?r))"
    by (simp add: ResultsDashboard_def Let_def d)
  have n: "\<forall>text. AIExplanation text \<notin> set (ResultsDashboard (Some ?r))"
    if "ai_explanation (result ?r) = None"
    using that by (auto simp: ResultsDashboard_def Let_def split: option.splits if_splits)
  from x a d b n show ?thesis by (simp add: r decision_with_explanation)
qed

text \<open>A request that asks for an explanation while the collaborator is down.\<close>

theorem explanation_failure_is_soft_witness:
  "decision (result (fst (screening_request (\<lambda>tn pid d. Inl (GenerationError ''down''))
        \<lparr>clock = 7, audit = []\<rparr> scenario_trial patient_no_hba1c True))) = UNCERTAIN
   \<and> ai_explanation (result (fst (screening_request (\<lambda>tn pid d. Inl (GenerationError ''down''))
        \<lparr>clock = 7, audit = []\<rparr> scenario_trial patient_no_hba1c True))) = None
   \<and> DecisionBanner UNCERTAIN \<in> set (ResultsDashboard (Some (fst (screening_request
        (\<lambda>tn pid d. Inl (GenerationError ''down''))
        \<lparr>clock = 7, audit = []\<rparr> scenario_trial patient_no_hba1c True))))
   \<and> AIExplanation ''explained'' \<notin> set (ResultsDashboard (Some (fst (screening_request
        (\<lambda>tn pid d. Inl (GenerationError ''down''))
        \<lparr>clock = 7, audit = []\<rparr> scenario_trial patient_no_hba1c True))))
   \<and> ai_explanation (result (fst (screening_request (\<lambda>tn pid d. Inr ''explained'')
        \<lparr>clock = 7, audit = []\<rparr> scenario_trial patient_no_hba1c True))) = Some ''explained''"
proof -
  have d: "decision (screen_patient scenario_trial patient_no_hba1c) = UNCERTAIN"
    by (simp add: engine_eval)
  from explanation_failure_is_soft
    [of "\<lambda>tn pid d. Inl (GenerationError ''down'')" "\<lparr>clock = 7, audit = []\<rparr>"
        scenario_trial patient_no_hba1c True]
    explanation_failure_is_soft
    [of "\<lambda>tn pid d. Inr ''explained''" "\<lparr>clock = 7, audit = []\<rparr>"
        scenario_trial patient_no_hba1c True]
    d
  show ?thesis by simp
qed

section \<open>Batch screening: explanations are off unless asked for\<close>

text \<open>
  C7. \<open>batchScreen\<close> called without its third argument posts
  \<open>generate_ai_explanation = false\<close>; called with it, it posts what the caller gave, so
  a caller can still ask for explanations; and \<open>handleProcessBatch\<close>, the batch upload
  flow, posts \<open>false\<close> (and posts nothing when no patient is loaded).
\<close>

theorem batchScreen_explanation_default:
  "batchScreen post t ps None
     = post ''/screening/batch'' \<lparr>trial_id = t, patients = ps, generate_ai_explanation = False\<rparr>
   \<and> batchScreen post t ps (Some b)
     = post ''/screening/batch'' \<lparr>trial_id = t, patients = ps, generate_ai_explanation = b\<rparr>
   \<and> handleProcessBatch post t s
     = (if uploaded s = [] then s
        else (case post ''/screening/batch''
                     \<lparr>trial_id = t, patients = uploaded s, generate_ai_explanation = False\<rparr> of
                Inr response \<Rightarrow>
                  s\<lparr>upload_status := complete, results := Some response, error_message := None\<rparr>
              | Inl e \<Rightarrow> s\<lparr>upload_status := error_status, error_message := Some (error_text e)\<rparr>))"
  by (simp add: batchScreen_def handleProcessBatch_def)

text \<open>A server that counts the patients when no explanation is asked for, and fails otherwise.\<close>

theorem batchScreen_explanation_default_witness:
  "batchScreen (\<lambda>path r. if generate_ai_explanation r then Inl (IsError ''no explanations'')
                            else Inr (length (patients r))) ''T1'' [''P1'', ''P2''] None = Inr 2
   \<and> batchScreen (\<lambda>path r. if generate_ai_explanation r then Inl (IsError ''no explanations'')
                            else Inr (length (patients r))) ''T1'' [''P1'', ''P2''] (Some True) = Inl (IsError ''no explanations'')
   \<and> handleProcessBatch (\<lambda>path r. if generate_ai_explanation r then Inl (IsError ''no explanations'')
                            else Inr (length (patients r))) ''T1''
        \<lparr>upload_status = preview, uploaded = [''P1'', ''P2''], results = None, error_message = None\<rparr>
      = \<lparr>upload_status = complete, uploaded = [''P1'', ''P2''], results = Some 2, error_message = None\<rparr>"
  using batchScreen_explanation_default
    [of "\<lambda>path r. if generate_ai_explanation r then Inl (IsError ''no explanations'') else Inr (length (patients r))"
        "''T1''" "[''P1'', ''P2'']" True
        "\<lparr>upload_status = preview, uploaded = [''P1'', ''P2''], results = None, error_message = None\<rparr>"]
  by simp

section \<open>CSV rows: numeric cells\<close>

text \<open>
  C8, as amended. In \<open>parseCSV\<close>, whose patients are the row patients of the data
  lines (\<open>parseCSV_patients_are_rows\<close>), take a data row that gives a patient and a column
  \<open>idx\<close> whose cell is not blank, \<open>v\<close> being its trimmed text, such that no later column
  with the same header has a non-blank cell in the row. If the header is \<open>age\<close> and
  \<open>parseInt v\<close> is not a truthy number, or the header is \<open>hba1c\<close>, \<open>egfr\<close> or
  \<open>creatinine\<close> and \<open>parseFloat v\<close> is not a truthy number, the field is \<open>undefined\<close>
  in the patient, since the parse result goes through \<open>|| undefined\<close>. The text \<open>0\<close> is
  such a text, and so is every text that does not start with a sign, a digit, a dot or
  \<open>I\<close>: a measurement recorded as 0 is submitted as missing. (When a header is repeated,
  the last non-blank cell under it decides the field.)
\<close>

theorem csv_numeric_cell_falsy_undefined:
  assumes row: "row_patient headers k i line = Some p"
    and idx: "idx < length headers"
    and cell: "cell_text (parseCSVLine line) idx = v" "v \<noteq> []"
    and later: "\<forall>j. idx < j \<and> j < length headers \<and> headers ! j = headers ! idx
                  \<longrightarrow> cell_text (parseCSVLine line) j = []"
  shows "(headers ! idx = ''age'' \<and> \<not> truthy_num (parseInt v) \<longrightarrow> age p = None)
       \<and> (headers ! idx = ''hba1c'' \<and> \<not> truthy_num (parseFloat v) \<longrightarrow> HbA1c p = None)
       \<and> (headers ! idx = ''egfr'' \<and> \<not> truthy_num (parseFloat v) \<longrightarrow> eGFR p = None)
       \<and> (headers ! idx = ''creatinine'' \<and> \<not> truthy_num (parseFloat v) \<longrightarrow> creatinine p = None)
       \<and> (v = ''0'' \<or> hd v \<notin> set ''+-.0123456789I''
            \<longrightarrow> \<not> truthy_num (parseInt v) \<and> \<not> truthy_num (parseFloat v))"
proof -
  from row_patient_fold [OF row] obtain p0
    where p: "p = fold (forEach_body (parseCSVLine line)) (enumerate 0 headers) p0" ..
  from cell have ne: "cell_text (parseCSVLine line) idx \<noteq> []" by simp
  have a: "age p = or_undefined (parseInt v)" if h: "headers ! idx = ''age''"
    unfolding p cell(1) [symmetric]
    by (rule last_column_decides [where name = "''age''", OF _ _ idx h ne])
       (use later h in \<open>simp_all add: set_column_def\<close>)
  have b: "HbA1c p = or_undefined (parseFloat v)" if h: "headers ! idx = ''hba1c''"
    unfolding p cell(1) [symmetric]
    by (rule last_column_decides [where name = "''hba1c''", OF _ _ idx h ne])
       (use later h in \<open>simp_all add: set_column_def\<close>)
  have c: "eGFR p = or_undefined (parseFloat v)" if h: "headers ! idx = ''egfr''"
    unfolding p cell(1) [symmetric]
    by (rule last_column_decides [where name = "''egfr''", OF _ _ idx h ne])
       (use later h in \<open>simp_all add: set_column_def\<close>)
  have d: "creatinine p = or_undefined (parseFloat v)" if h: "headers ! idx = ''creatinine''"
    unfolding p cell(1) [symmetric]
    by (rule last_column_decides [where name = "''creatinine''", OF _ _ idx h ne])
       (use later h in \<open>simp_all add: set_column_def\<close>)
  have zero: "\<not> truthy_num (parseInt ''0'') \<and> \<not> truthy_num (parseFloat ''0'')"
    by (simp add: js_eval)
  have e: "\<not> truthy_num (parseInt v) \<and> \<not> truthy_num (parseFloat v)"
    if h: "hd v \<notin> set ''+-.0123456789I''"
  proof -
    from cell obtain x where "v = trim x"
      by (auto simp: cell_text_def split: option.splits)
    with cell(2) trim_no_ws_ends [of x] have "\<not> is_ws (hd v)" by simp
    from no_numeric_prefix [OF cell(2) this h] show ?thesis by (simp add: truthy_num_def)
  qed
  from a b c d e zero show ?thesis by (auto simp: or_undefined_None)
qed

text \<open>
  The claim as it was stated fails where a header is repeated: in the file below the cell
  \<open>0\<close> under the first \<open>age\<close> does not parse to a truthy number, and the patient's
  \<open>age\<close> is 50, from the second.
\<close>

theorem csv_repeated_header_counterexample:
  "parseCSVLine ''P1,0,50'' = [''P1'', ''0'', ''50'']
   \<and> [''id'', ''age'', ''age''] ! 1 = ''age''
   \<and> \<not> truthy_num (parseInt ''0'')
   \<and> parseCSV (''id,age,age'' @ [CHR 0x0A] @ ''P1,0,50'')
      = Inr [\<lparr>patient_id = ''P1'', age = Some (Fin 50), gender = None, diagnosis = None,
               diagnosis_date = None, HbA1c = None, eGFR = None, creatinine = None,
               current_medications = [], comorbidities = [], pregnancy_status = None,
               clinical_notes = None\<rparr>]"
  by (simp add: js_eval csv_eval)

text \<open>Two rows that meet the hypotheses: \<open>0\<close> under \<open>age\<close>, \<open>n/a\<close> under \<open>hba1c\<close>.\<close>

theorem csv_numeric_cell_falsy_undefined_witness:
  "row_patient [''id'', ''age''] 0 1 ''P7,0''
     = Some \<lparr>patient_id = ''P7'', age = None, gender = None, diagnosis = None,
              diagnosis_date = None, HbA1c = None, eGFR = None, creatinine = None,
              current_medications = [], comorbidities = [], pregnancy_status = None,
              clinical_notes = None\<rparr>
   \<and> cell_text (parseCSVLine ''P7,0'') 1 = ''0''
   \<and> \<not> truthy_num (parseInt ''0'')
   \<and> row_patient [''id'', ''hba1c''] 0 2 ''P8, n/a ''
     = Some \<lparr>patient_id = ''P8'', age = None, gender = None, diagnosis = None,
              diagnosis_date = None, HbA1c = None, eGFR = None, creatinine = None,
              current_medications = [], comorbidities = [], pregnancy_status = None,
              clinical_notes = None\<rparr>
   \<and> cell_text (parseCSVLine ''P8, n/a '') 1 = ''n/a''
   \<and> \<not> truthy_num (parseFloat ''n/a'')"
proof -
  define p where "p = fold (forEach_body (parseCSVLine ''P7,0'')) (enumerate 0 [''id'', ''age''])
      \<lparr>patient_id = ''P7'', age = None, gender = None, diagnosis = None,
       diagnosis_date = None, HbA1c = None, eGFR = None, creatinine = None,
       current_medications = [], comorbidities = [], pregnancy_status = None,
       clinical_notes = None :: string option\<rparr>"
  define q where "q = fold (forEach_body (parseCSVLine ''P8, n/a '')) (enumerate 0 [''id'', ''hba1c''])
      \<lparr>patient_id = ''P8'', age = None, gender = None, diagnosis = None,
       diagnosis_date = None, HbA1c = None, eGFR = None, creatinine = None,
       current_medications = [], comorbidities = [], pregnancy_status = None,
       clinical_notes = None :: string option\<rparr>"
  have rp: "row_patient [''id'', ''age''] 0 1 ''P7,0'' = Some p"
    by (simp add: p_def row_patient_def parseCSVLine_def js_eval)
  have rq: "row_patient [''id'', ''hba1c''] 0 2 ''P8, n/a '' = Some q"
    by (simp add: q_def row_patient_def parseCSVLine_def js_eval)
  have cp: "cell_text (parseCSVLine ''P7,0'') 1 = ''0''" by (simp add: js_eval csv_eval)
  have cq: "cell_text (parseCSVLine ''P8, n/a '') 1 = ''n/a''" by (simp add: js_eval csv_eval)
  have fp: "\<not> truthy_num (parseInt ''0'')" by (simp add: js_eval)
  have fq: "\<not> truthy_num (parseFloat ''n/a'')" by (simp add: js_eval)
  have ip: "1 < length [''id'', ''age'']" and iq: "1 < length [''id'', ''hba1c'']" by simp_all
  have lp: "\<forall>j. 1 < j \<and> j < length [''id'', ''age''] \<and> [''id'', ''age''] ! j = [''id'', ''age''] ! 1
      \<longrightarrow> cell_text (parseCSVLine ''P7,0'') j = []" by auto
  have lq: "\<forall>j. 1 < j \<and> j < length [''id'', ''hba1c''] \<and> [''id'', ''hba1c''] ! j = [''id'', ''hba1c''] ! 1
      \<longrightarrow> cell_text (parseCSVLine ''P8, n/a '') j = []" by auto
  have "age p = None"
    using csv_numeric_cell_falsy_undefined [OF rp ip cp _ lp] fp by simp
  moreover have "HbA1c q = None"
    using csv_numeric_cell_falsy_undefined [OF rq iq cq _ lq] fq by simp
  moreover have "p = \<lparr>patient_id = ''P7'', age = age p, gender = None, diagnosis = None,
              diagnosis_date = None, HbA1c = None, eGFR = None, creatinine = None,
              current_medications = [], comorbidities = [], pregnancy_status = None,
              clinical_notes = None\<rparr>"
    by (simp add: p_def js_eval csv_eval)
  moreover have "q = \<lparr>patient_id = ''P8'', age = None, gender = None, diagnosis = None,
              diagnosis_date = None, HbA1c = HbA1c q, eGFR = None, creatinine = None,
              current_medications = [], comorbidities = [], pregnancy_status = None,
              clinical_notes = None\<rparr>"
    by (simp add: q_def js_eval csv_eval)
  ultimately show ?thesis using rp rq cp cq fp fq by simp
qed

section \<open>Batch files: blank identifier cells\<close>

text \<open>
  C9. The claim: every patient produced by \<open>parseCSV\<close> or \<open>parseJSON\<close> has a non-empty
  \<open>patient_id\<close>, a CSV row with a blank id cell receiving the synthesized \<open>P\<close> and row
  index. \<open>parseCSV\<close> tests the id cell without trimming it, while it trims every cell
  when it decides that a row is blank and every other cell before storing it. So the row
  \<open> ,5\<close>, whose id cell is one space, is not skipped and keeps the space as its
  \<open>patient_id\<close> where the synthesized id is \<open>P1\<close>; and in a file with CR LF line ends
  and the id column last, the row \<open>5,\<close> with an empty id cell keeps the carriage return
  as its \<open>patient_id\<close>. Both cells trim to the empty text.
\<close>

theorem csv_blank_id_cell_kept:
  "parseCSV (''id,age'' @ [CHR 0x0A] @ '' ,5'')
     = Inr [\<lparr>patient_id = '' '', age = Some (Fin 5), gender = None, diagnosis = None,
              diagnosis_date = None, HbA1c = None, eGFR = None, creatinine = None,
              current_medications = [], comorbidities = [], pregnancy_status = None,
              clinical_notes = None\<rparr>]
   \<and> trim '' '' = []
   \<and> ''P'' @ show_nat 1 = ''P1''
   \<and> parseCSV (''age,id'' @ [CHR 0x0D, CHR 0x0A] @ ''5,'' @ [CHR 0x0D, CHR 0x0A] @ ''6,X'')
     = Inr [\<lparr>patient_id = [CHR 0x0D], age = Some (Fin 5), gender = None, diagnosis = None,
              diagnosis_date = None, HbA1c = None, eGFR = None, creatinine = None,
              current_medications = [], comorbidities = [], pregnancy_status = None,
              clinical_notes = None\<rparr>,
            \<lparr>patient_id = ''X'', age = Some (Fin 6), gender = None, diagnosis = None,
              diagnosis_date = None, HbA1c = None, eGFR = None, creatinine = None,
              current_medications = [], comorbidities = [], pregnancy_status = None,
              clinical_notes = None\<rparr>]
   \<and> trim [CHR 0x0D] = []"
  by (simp add: js_eval csv_eval)

section \<open>Form submission\<close>

text \<open>
  C10. In form mode \<open>handleSubmit\<close> always submits a patient, whose
  \<open>current_medications\<close> and \<open>comorbidities\<close> are the comma-separated entries of the two
  text inputs (the one list of pieces that join back to the input with commas and hold no
  comma themselves), each trimmed, the empty ones removed. So every element is non-empty and
  neither starts nor ends with white space, and an empty input gives the empty list.
\<close>

theorem handleSubmit_form_lists:
  assumes "\<not> jsonMode s"
  shows "\<exists>p. handleSubmit JSON_parse s = (s, Some (SubmitPatient p))
    \<and> (\<forall>es. es \<noteq> [] \<and> (\<forall>e \<in> set es. CHR '','' \<notin> set e) \<and> join CHR '','' es = medications s
          \<longrightarrow> current_medications p = filter (\<lambda>x. x \<noteq> []) (map trim es))
    \<and> (\<forall>es. es \<noteq> [] \<and> (\<forall>e \<in> set es. CHR '','' \<notin> set e) \<and> join CHR '','' es = comorbidities_text s
          \<longrightarrow> comorbidities p = filter (\<lambda>x. x \<noteq> []) (map trim es))
    \<and> (\<exists>es. es \<noteq> [] \<and> (\<forall>e \<in> set es. CHR '','' \<notin> set e) \<and> join CHR '','' es = medications s
          \<and> current_medications p = filter (\<lambda>x. x \<noteq> []) (map trim es))
    \<and> (\<exists>es. es \<noteq> [] \<and> (\<forall>e \<in> set es. CHR '','' \<notin> set e) \<and> join CHR '','' es = comorbidities_text s
          \<and> comorbidities p = filter (\<lambda>x. x \<noteq> []) (map trim es))
    \<and> (\<forall>x \<in> set (current_medications p) \<union> set (comorbidities p).
          x \<noteq> [] \<and> \<not> is_ws (hd x) \<and> \<not> is_ws (last x) \<and> trim x = x)
    \<and> (medications s = [] \<longrightarrow> current_medications p = [])
    \<and> (comorbidities_text s = [] \<longrightarrow> comorbidities p = [])"
proof -
  define p where "p = (patient s)
       \<lparr>current_medications := filter_Boolean (map trim (split CHR '','' (medications s))),
        comorbidities := filter_Boolean (map trim (split CHR '','' (comorbidities_text s)))\<rparr>"
  have run: "handleSubmit JSON_parse s = (s, Some (SubmitPatient p))"
    using assms by (simp add: handleSubmit_def p_def)
  have meds: "current_medications p = filter (\<lambda>x. x \<noteq> []) (map trim (split CHR '','' (medications s)))"
    by (simp add: p_def filter_Boolean_def)
  have coms: "comorbidities p = filter (\<lambda>x. x \<noteq> []) (map trim (split CHR '','' (comorbidities_text s)))"
    by (simp add: p_def filter_Boolean_def)
  have a: "\<forall>es. es \<noteq> [] \<and> (\<forall>e \<in> set es. CHR '','' \<notin> set e) \<and> join CHR '','' es = medications s
          \<longrightarrow> current_medications p = filter (\<lambda>x. x \<noteq> []) (map trim es)"
    using meds split_unique by blast
  have b: "\<forall>es. es \<noteq> [] \<and> (\<forall>e \<in> set es. CHR '','' \<notin> set e) \<and> join CHR '','' es = comorbidities_text s
          \<longrightarrow> comorbidities p = filter (\<lambda>x. x \<noteq> []) (map trim es)"
    using coms split_unique by blast
  have a': "\<exists>es. es \<noteq> [] \<and> (\<forall>e \<in> set es. CHR '','' \<notin> set e) \<and> join CHR '','' es = medications s
          \<and> current_medications p = filter (\<lambda>x. x \<noteq> []) (map trim es)"
    using meds split_not_Nil split_no_sep join_split by blast
  have b': "\<exists>es. es \<noteq> [] \<and> (\<forall>e \<in> set es. CHR '','' \<notin> set e) \<and> join CHR '','' es = comorbidities_text s
          \<and> comorbidities p = filter (\<lambda>x. x \<noteq> []) (map trim es)"
    using coms split_not_Nil split_no_sep join_split by blast
  have c: "x \<noteq> [] \<and> \<not> is_ws (hd x) \<and> \<not> is_ws (last x) \<and> trim x = x"
    if "x \<in> set (current_medications p) \<union> set (comorbidities p)" for x
  proof -
    from that meds coms obtain e where e: "x = trim e" "trim e \<noteq> []" by auto
    with trim_no_ws_ends [of e] trim_idem [of e] show ?thesis by simp
  qed
  have d: "medications s = [] \<longrightarrow> current_medications p = []"
    by (simp add: meds trim_def)
  have e: "comorbidities_text s = [] \<longrightarrow> comorbidities p = []"
    by (simp add: coms trim_def)
  from run a a' b b' c d e show ?thesis by blast
qed


text \<open>A form whose inputs hold blanks and empty entries.\<close>

theorem handleSubmit_form_lists_witness:
  "handleSubmit (\<lambda>_. None :: unit option)
      \<lparr>patient = \<lparr>patient_id = ''P1'', age = None, gender = None,
          diagnosis = None, diagnosis_date = None, HbA1c = None, eGFR = None, creatinine = None,
          current_medications = [], comorbidities = [], pregnancy_status = None,
          clinical_notes = None\<rparr>,
       medications = '' metformin, ,insulin '', comorbidities_text = [],
       jsonMode = False, jsonInput = [], jsonError = None\<rparr>
   = (\<lparr>patient = \<lparr>patient_id = ''P1'', age = None, gender = None,
          diagnosis = None, diagnosis_date = None, HbA1c = None, eGFR = None, creatinine = None,
          current_medications = [], comorbidities = [], pregnancy_status = None,
          clinical_notes = None\<rparr>,
       medications = '' metformin, ,insulin '', comorbidities_text = [],
       jsonMode = False, jsonInput = [], jsonError = None\<rparr>,
      Some (SubmitPatient \<lparr>patient_id = ''P1'', age = None, gender = None,
          diagnosis = None, diagnosis_date = None, HbA1c = None, eGFR = None, creatinine = None,
          current_medications = [''metformin'', ''insulin''], comorbidities = [],
          pregnancy_status = None, clinical_notes = None\<rparr>))"
proof -
  let ?s = "\<lparr>patient = \<lparr>patient_id = ''P1'', age = None, gender = None,
          diagnosis = None, diagnosis_date = None, HbA1c = None, eGFR = None, creatinine = None,
          current_medications = [], comorbidities = [], pregnancy_status = None,
          clinical_notes = None\<rparr>,
       medications = '' metformin, ,insulin '', comorbidities_text = [],
       jsonMode = False, jsonInput = [], jsonError = None\<rparr>"
  have h: "\<not> jsonMode ?s" by simp
  from handleSubmit_form_lists [OF h, of "\<lambda>_. None :: unit option"] obtain p
    where run: "handleSubmit (\<lambda>_. None :: unit option) ?s = (?s, Some (SubmitPatient p))"
      and meds: "\<forall>es. es \<noteq> [] \<and> (\<forall>e \<in> set es. CHR '','' \<notin> set e)
            \<and> join CHR '','' es = medications ?s
          \<longrightarrow> current_medications p = filter (\<lambda>x. x \<noteq> []) (map trim es)"
      and emp: "comorbidities_text ?s = [] \<longrightarrow> comorbidities p = []"
    by blast
  from meds [THEN spec, of "['' metformin'', '' '', ''insulin '']"]
  have "current_medications p
      = filter (\<lambda>x. x \<noteq> []) (map trim ['' metformin'', '' '', ''insulin ''])"
    by simp
  then have m: "current_medications p = [''metformin'', ''insulin'']"
    by (simp add: js_eval)
  from emp have c: "comorbidities p = []" by simp
  from run have "p = (patient ?s)\<lparr>current_medications := current_medications p,
      comorbidities := comorbidities p\<rparr>"
    by (auto simp: handleSubmit_def)
  with m c have "p = \<lparr>patient_id = ''P1'', age = None, gender = None,
          diagnosis = None, diagnosis_date = None, HbA1c = None, eGFR = None, creatinine = None,
          current_medications = [''metformin'', ''insulin''], comorbidities = [],
          pregnancy_status = None, clinical_notes = None\<rparr>"
    by simp
  with run show ?thesis by simp
qed

end
